theory Spec2Isabelle
  imports Complex_Main
begin

section \<open>Conventions of the embedding\<close>

text \<open>
  The Python sources are embedded as follows.
  \<^item> A Python \<^verbatim>\<open>float\<close> is a \<^typ>\<open>real\<close>: rounding, overflow and infinities are outside the
    model. The quotes \<^verbatim>\<open>bid\<close> and \<^verbatim>\<open>ask\<close> of a contract are the exception: the loader
    reads them with \<^verbatim>\<open>float(...)\<close>, which accepts \<^verbatim>\<open>nan\<close>, and the liquidity filter lets a
    NaN quote through. The records of contracts and spreads are therefore polymorphic in the
    type of the quotes: \<^typ>\<open>real\<close> for the simulator and the analyzer, which are modelled on
    spreads with finite quotes, and \<open>pyfloat\<close>, a real or NaN, for the candidate generator,
    which receives the rows of the loader.
  \<^item> A \<^verbatim>\<open>datetime.date\<close> is an \<^typ>\<open>int\<close>, the day number of the date; the difference of
    two dates followed by \<^verbatim>\<open>.days\<close> is integer subtraction.
  \<^item> \<^verbatim>\<open>date.today()\<close> is the explicit parameter \<open>today\<close> of every function that reads it.
  \<^item> An exception is a value \<open>Inl e\<close> of \<open>error + 'a\<close>; a float division is \<open>py_div\<close>, which
    raises on a zero divisor, and \<^verbatim>\<open>math.sqrt\<close> is \<open>py_sqrt\<close>, which raises on a negative
    argument.
  \<^item> A generator is the list of the values it yields, in order.
\<close>

datatype error = ValueError string | ZeroDivisionError

definition bind_result :: "error + 'a \<Rightarrow> ('a \<Rightarrow> error + 'b) \<Rightarrow> error + 'b" where
  "bind_result m f = (case m of Inl e \<Rightarrow> Inl e | Inr x \<Rightarrow> f x)"

definition py_div :: "real \<Rightarrow> real \<Rightarrow> error + real" where
  "py_div a b = (if b = 0 then Inl ZeroDivisionError else Inr (a / b))"

definition py_sqrt :: "real \<Rightarrow> error + real" where
  "py_sqrt x = (if x < 0 then Inl (ValueError ''math domain error'') else Inr (sqrt x))"

text \<open>
  A float that may be NaN, with the operations of the source on it: arithmetic with a NaN
  operand gives NaN, every comparison with a NaN operand is false, and \<^verbatim>\<open>max(a, b)\<close> is
  \<^verbatim>\<open>b\<close> if \<^verbatim>\<open>b > a\<close> and \<^verbatim>\<open>a\<close> otherwise.
\<close>

datatype pyfloat = Fin real | NaN

fun float_add :: "pyfloat \<Rightarrow> pyfloat \<Rightarrow> pyfloat" where
  "float_add (Fin x) (Fin y) = Fin (x + y)"
| "float_add a b = NaN"

fun float_sub :: "pyfloat \<Rightarrow> pyfloat \<Rightarrow> pyfloat" where
  "float_sub (Fin x) (Fin y) = Fin (x - y)"
| "float_sub a b = NaN"

text \<open>Division by a constant that is not zero.\<close>

fun float_div_const :: "pyfloat \<Rightarrow> real \<Rightarrow> pyfloat" where
  "float_div_const (Fin x) d = Fin (x / d)"
| "float_div_const NaN d = NaN"

fun float_le :: "pyfloat \<Rightarrow> pyfloat \<Rightarrow> bool" where
  "float_le (Fin x) (Fin y) = (x \<le> y)"
| "float_le a b = False"

fun float_lt :: "pyfloat \<Rightarrow> pyfloat \<Rightarrow> bool" where
  "float_lt (Fin x) (Fin y) = (x < y)"
| "float_lt a b = False"

definition float_ge :: "pyfloat \<Rightarrow> pyfloat \<Rightarrow> bool" where
  "float_ge a b = float_le b a"

definition float_gt :: "pyfloat \<Rightarrow> pyfloat \<Rightarrow> bool" where
  "float_gt a b = float_lt b a"

definition float_max :: "pyfloat \<Rightarrow> pyfloat \<Rightarrow> pyfloat" where
  "float_max a b = (if float_gt b a then b else a)"

section \<open>models/option.py\<close>

text \<open>The dataclass \<^verbatim>\<open>Option\<close>; the record is named \<open>Option_contract\<close> to stay clear of the
  HOL type of optional values. The type parameter is the type of the quotes.\<close>

record 'q Option_contract =
  ticker :: string
  strike :: real
  expiration :: int
  option_type :: string
  bid :: 'q
  ask :: 'q
  volume :: int
  open_interest :: int
  delta :: real
  implied_vol :: real
  last_price :: "real option"
  gamma :: "real option"
  theta :: "real option"
  vega :: "real option"

text \<open>The property \<^verbatim>\<open>mid\<close> on finite quotes, and on quotes that may be NaN.\<close>

definition mid :: "real Option_contract \<Rightarrow> real" where
  "mid opt = (bid opt + ask opt) / 2"

definition mid_float :: "pyfloat Option_contract \<Rightarrow> pyfloat" where
  "mid_float opt = float_div_const (float_add (bid opt) (ask opt)) 2"

definition dte :: "int \<Rightarrow> 'q Option_contract \<Rightarrow> int" where
  "dte today opt = expiration opt - today"

section \<open>models/iron\_condor.py\<close>

text \<open>The dataclass \<^verbatim>\<open>IronCondor\<close>. Its fields \<^verbatim>\<open>ticker\<close> and \<^verbatim>\<open>expiration\<close> are
  \<open>ic_ticker\<close> and \<open>ic_expiration\<close> here, since a leg has fields of the same names.\<close>

record 'q IronCondor =
  ic_ticker :: string
  ic_expiration :: int
  short_put :: "'q Option_contract"
  long_put :: "'q Option_contract"
  short_call :: "'q Option_contract"
  long_call :: "'q Option_contract"

text \<open>\<^verbatim>\<open>__post_init__\<close>: the checks in the order of the source; the first that fails raises.\<close>

definition post_init :: "'q IronCondor \<Rightarrow> error + 'q IronCondor" where
  "post_init self =
    (if \<not> list_all (\<lambda>leg. ticker leg = ic_ticker self)
            [short_put self, long_put self, short_call self, long_call self]
     then Inl (ValueError ''All legs must have same ticker'')
     else if \<not> list_all (\<lambda>leg. expiration leg = ic_expiration self)
            [short_put self, long_put self, short_call self, long_call self]
     then Inl (ValueError ''All legs must have same expiration'')
     else if option_type (short_put self) \<noteq> ''put'' \<or> option_type (long_put self) \<noteq> ''put''
     then Inl (ValueError ''Put side must contain put options'')
     else if strike (short_put self) \<le> strike (long_put self)
     then Inl (ValueError ''Short put strike must be above long put strike'')
     else if option_type (short_call self) \<noteq> ''call'' \<or> option_type (long_call self) \<noteq> ''call''
     then Inl (ValueError ''Call side must contain call options'')
     else if strike (short_call self) \<ge> strike (long_call self)
     then Inl (ValueError ''Short call strike must be below long call strike'')
     else if strike (short_call self) \<le> strike (short_put self)
     then Inl (ValueError ''Short call strike must be above short put strike'')
     else Inr self)"

text \<open>The constructor call \<^verbatim>\<open>IronCondor(ticker=..., expiration=..., short_put=..., ...)\<close>.\<close>

definition new_IronCondor ::
  "string \<Rightarrow> int \<Rightarrow> 'q Option_contract \<Rightarrow> 'q Option_contract \<Rightarrow> 'q Option_contract
     \<Rightarrow> 'q Option_contract \<Rightarrow> error + 'q IronCondor" where
  "new_IronCondor t e sp lp sc lc =
     post_init \<lparr>ic_ticker = t, ic_expiration = e, short_put = sp, long_put = lp,
                short_call = sc, long_call = lc\<rparr>"

definition net_credit :: "real IronCondor \<Rightarrow> real" where
  "net_credit self =
     (let put_spread_credit = mid (short_put self) - mid (long_put self);
          call_spread_credit = mid (short_call self) - mid (long_call self)
      in put_spread_credit + call_spread_credit)"

definition max_profit :: "real IronCondor \<Rightarrow> real" where
  "max_profit self = net_credit self"

definition put_side_width :: "'q IronCondor \<Rightarrow> real" where
  "put_side_width self = strike (short_put self) - strike (long_put self)"

definition call_side_width :: "'q IronCondor \<Rightarrow> real" where
  "call_side_width self = strike (long_call self) - strike (short_call self)"

definition max_loss_put_side :: "real IronCondor \<Rightarrow> real" where
  "max_loss_put_side self = put_side_width self - net_credit self"

definition max_loss_call_side :: "real IronCondor \<Rightarrow> real" where
  "max_loss_call_side self = call_side_width self - net_credit self"

definition max_loss :: "real IronCondor \<Rightarrow> real" where
  "max_loss self = max (max_loss_put_side self) (max_loss_call_side self)"

text \<open>The same properties on a spread whose quotes may be NaN, as the candidate generator
  reads them; the widths are differences of strikes and need no second version.\<close>

definition net_credit_float :: "pyfloat IronCondor \<Rightarrow> pyfloat" where
  "net_credit_float self =
     (let put_spread_credit = float_sub (mid_float (short_put self)) (mid_float (long_put self));
          call_spread_credit = float_sub (mid_float (short_call self)) (mid_float (long_call self))
      in float_add put_spread_credit call_spread_credit)"

definition max_profit_float :: "pyfloat IronCondor \<Rightarrow> pyfloat" where
  "max_profit_float self = net_credit_float self"

definition max_loss_put_side_float :: "pyfloat IronCondor \<Rightarrow> pyfloat" where
  "max_loss_put_side_float self = float_sub (Fin (put_side_width self)) (net_credit_float self)"

definition max_loss_call_side_float :: "pyfloat IronCondor \<Rightarrow> pyfloat" where
  "max_loss_call_side_float self = float_sub (Fin (call_side_width self)) (net_credit_float self)"

definition max_loss_float :: "pyfloat IronCondor \<Rightarrow> pyfloat" where
  "max_loss_float self = float_max (max_loss_put_side_float self) (max_loss_call_side_float self)"

section \<open>backtest/simulator.py\<close>

record ExitRule =
  profit_target_pct :: real
  stop_loss_pct :: real
  min_dte_to_close :: int
  close_before_earnings_days :: int

text \<open>\<^verbatim>\<open>ExitRule()\<close> with the defaults of the dataclass.\<close>

definition default_ExitRule :: ExitRule where
  "default_ExitRule =
     \<lparr>profit_target_pct = 0.50, stop_loss_pct = 1.0, min_dte_to_close = 21,
      close_before_earnings_days = 3\<rparr>"

text \<open>The fields \<^verbatim>\<open>max_profit\<close> and \<^verbatim>\<open>max_loss\<close> of \<^verbatim>\<open>BacktestResult\<close> are
  \<open>res_max_profit\<close> and \<open>res_max_loss\<close> here; the exit reason stays a string, as in the source.\<close>

record BacktestResult =
  iron_condor :: "real IronCondor"
  entry_date :: int
  exit_date :: int
  exit_reason :: string
  entry_credit :: real
  exit_cost :: real
  realized_pnl :: real
  res_max_profit :: real
  res_max_loss :: real
  return_pct :: real
  days_held :: int
  is_winner :: bool
  had_earnings :: bool

text \<open>
  The argument \<^verbatim>\<open>earnings_date: Optional[str]\<close> is used in two ways only: its truth value
  (\<^verbatim>\<open>None\<close> and the empty string are false) and \<^verbatim>\<open>date.fromisoformat\<close>, which returns a
  date or raises the \<^verbatim>\<open>ValueError\<close> that the source catches. The three cases are the three
  constructors: \<open>NoEarningsDate\<close> for a false value, \<open>BadEarningsDate\<close> for a non-empty string
  that does not parse, \<open>EarningsDate d\<close> for a string that parses to the date \<open>d\<close>.
\<close>

datatype earnings_arg = NoEarningsDate | BadEarningsDate | EarningsDate int

definition estimate_position_value :: "int \<Rightarrow> real IronCondor \<Rightarrow> real \<Rightarrow> int \<Rightarrow> error + real" where
  "estimate_position_value today ic price dte_now =
    (let short_put_k = strike (short_put ic);
         short_call_k = strike (short_call ic);
         long_put_k = strike (long_put ic);
         long_call_k = strike (long_call ic);
         initial_dte = dte today (short_put ic)
     in if short_put_k < price \<and> price < short_call_k
        then bind_result (py_div (real_of_int dte_now) (real_of_int (max initial_dte 1)))
               (\<lambda>time_factor. Inr (max_profit ic * time_factor * 0.3))
        else if price \<le> short_put_k
        then (let intrinsic = max 0 (short_put_k - price);
                  intrinsic_long = max 0 (long_put_k - price);
                  spread_value = intrinsic - intrinsic_long
              in Inr (min (spread_value * 100) (max_loss ic)))
        else if price \<ge> short_call_k
        then (let intrinsic = max 0 (price - short_call_k);
                  intrinsic_long = max 0 (price - long_call_k);
                  spread_value = intrinsic - intrinsic_long
              in Inr (min (spread_value * 100) (max_loss ic)))
        else Inr (max_profit ic * 0.5))"

definition estimate_exit_cost :: "real IronCondor \<Rightarrow> real \<Rightarrow> int \<Rightarrow> real \<Rightarrow> real" where
  "estimate_exit_cost ic price dte_now pct_of_max = max_profit ic * pct_of_max"

definition calculate_expiration_value :: "real IronCondor \<Rightarrow> real \<Rightarrow> real" where
  "calculate_expiration_value ic final_price =
    (let short_put_k = strike (short_put ic);
         short_call_k = strike (short_call ic);
         long_put_k = strike (long_put ic);
         long_call_k = strike (long_call ic)
     in if short_put_k < final_price \<and> final_price < short_call_k then 0
        else if final_price \<le> short_put_k
        then (let short_value = max 0 (short_put_k - final_price);
                  long_value = max 0 (long_put_k - final_price)
              in (short_value - long_value) * 100)
        else if final_price \<ge> short_call_k
        then (let short_value = max 0 (final_price - short_call_k);
                  long_value = max 0 (final_price - long_call_k)
              in (short_value - long_value) * 100)
        else 0)"

text \<open>
  The \<^verbatim>\<open>for dt, price in price_path\<close> loop of \<^verbatim>\<open>simulate_iron_condor\<close>. The state is the
  triple of the loop's variables \<^verbatim>\<open>(exit_date, exit_reason, exit_cost)\<close>; \<^verbatim>\<open>continue\<close> is the
  recursive call on the rest of the path, \<^verbatim>\<open>break\<close> returns the state.
\<close>

fun simulate_loop ::
  "int \<Rightarrow> real IronCondor \<Rightarrow> int \<Rightarrow> ExitRule \<Rightarrow> earnings_arg \<Rightarrow> (int \<times> real) list
     \<Rightarrow> int \<times> string \<times> real \<Rightarrow> error + (int \<times> string \<times> real)" where
  "simulate_loop today ic entry exit_rule earnings [] st = Inr st"
| "simulate_loop today ic entry exit_rule earnings ((dt, price) # rest) st =
    (if dt < entry then simulate_loop today ic entry exit_rule earnings rest st
     else if dt > ic_expiration ic then Inr st
     else
       (let days_to_exp = ic_expiration ic - dt in
        if (case earnings of
              EarningsDate earnings_dt \<Rightarrow>
                close_before_earnings_days exit_rule > 0 \<and>
                0 \<le> earnings_dt - dt \<and> earnings_dt - dt \<le> close_before_earnings_days exit_rule
            | _ \<Rightarrow> False)
        then Inr (dt, ''earnings'', estimate_exit_cost ic price days_to_exp 0.30)
        else if days_to_exp \<le> min_dte_to_close exit_rule
        then Inr (dt, ''min_dte'', estimate_exit_cost ic price days_to_exp 0.25)
        else
          bind_result (estimate_position_value today ic price days_to_exp)
            (\<lambda>current_value.
               let current_pnl = net_credit ic - current_value in
               if current_pnl \<ge> max_profit ic * profit_target_pct exit_rule
               then Inr (dt, ''profit_target'', current_value)
               else if current_pnl \<le> - max_loss ic * stop_loss_pct exit_rule
               then Inr (dt, ''stop_loss'', current_value)
               else simulate_loop today ic entry exit_rule earnings rest st)))"

definition simulate_iron_condor ::
  "int \<Rightarrow> real IronCondor \<Rightarrow> int \<Rightarrow> ExitRule \<Rightarrow> (int \<times> real) list \<Rightarrow> earnings_arg
     \<Rightarrow> error + BacktestResult" where
  "simulate_iron_condor today ic entry exit_rule price_path earnings =
    (let expiration_d = ic_expiration ic;
         entry_credit_v = net_credit ic;
         max_profit_v = max_profit ic;
         max_loss_v = max_loss ic;
         had = (case earnings of
                  EarningsDate earnings_dt \<Rightarrow> entry \<le> earnings_dt \<and> earnings_dt \<le> expiration_d
                | _ \<Rightarrow> False)
     in bind_result
          (simulate_loop today ic entry exit_rule earnings price_path
             (expiration_d, ''expiration'', 0))
          (\<lambda>(exit_d, reason, cost0).
             let cost = (if reason = ''expiration''
                         then (let final_price = (if price_path \<noteq> [] then snd (last price_path)
                                                  else 0)
                               in calculate_expiration_value ic final_price)
                         else cost0);
                 pnl = entry_credit_v - cost
             in bind_result
                  (if max_loss_v > 0
                   then bind_result (py_div pnl max_loss_v) (\<lambda>q. Inr (q * 100))
                   else Inr 0)
                  (\<lambda>ret.
                     Inr \<lparr>iron_condor = ic, entry_date = entry, exit_date = exit_d,
                          exit_reason = reason, entry_credit = entry_credit_v, exit_cost = cost,
                          realized_pnl = pnl, res_max_profit = max_profit_v,
                          res_max_loss = max_loss_v, return_pct = ret,
                          days_held = exit_d - entry, is_winner = (pnl > 0),
                          had_earnings = had\<rparr>)))"

text \<open>The fixture \<^verbatim>\<open>sample_iron_condor\<close> of tests/test\_backtest.py, with the date
  2026-02-21 as day 52.\<close>

definition sample_long_put :: "real Option_contract" where
  "sample_long_put =
     \<lparr>ticker = ''SPY'', strike = 540, expiration = 52, option_type = ''put'',
      bid = 0.5, ask = 0.6, volume = 100, open_interest = 1000, delta = - 0.05,
      implied_vol = 0.15, last_price = Some 0.55, gamma = Some 0.01, theta = Some (- 0.5),
      vega = Some 1\<rparr>"

definition sample_short_put :: "real Option_contract" where
  "sample_short_put =
     \<lparr>ticker = ''SPY'', strike = 545, expiration = 52, option_type = ''put'',
      bid = 1.9, ask = 2.1, volume = 500, open_interest = 5000, delta = - 0.15,
      implied_vol = 0.16, last_price = Some 2, gamma = Some 0.02, theta = Some (- 1),
      vega = Some 2\<rparr>"

definition sample_short_call :: "real Option_contract" where
  "sample_short_call =
     \<lparr>ticker = ''SPY'', strike = 575, expiration = 52, option_type = ''call'',
      bid = 1.9, ask = 2.1, volume = 500, open_interest = 5000, delta = 0.15,
      implied_vol = 0.16, last_price = Some 2, gamma = Some 0.02, theta = Some (- 1),
      vega = Some 2\<rparr>"

definition sample_long_call :: "real Option_contract" where
  "sample_long_call =
     \<lparr>ticker = ''SPY'', strike = 580, expiration = 52, option_type = ''call'',
      bid = 0.5, ask = 0.6, volume = 100, open_interest = 1000, delta = 0.05,
      implied_vol = 0.15, last_price = Some 0.55, gamma = Some 0.01, theta = Some (- 0.5),
      vega = Some 1\<rparr>"

definition sample_iron_condor :: "real IronCondor" where
  "sample_iron_condor =
     \<lparr>ic_ticker = ''SPY'', ic_expiration = 52, short_put = sample_short_put,
      long_put = sample_long_put, short_call = sample_short_call,
      long_call = sample_long_call\<rparr>"

section \<open>backtest/metrics.py\<close>

record PerformanceMetrics =
  total_trades :: int
  winners :: int
  losers :: int
  win_rate :: real
  avg_return_pct :: real
  avg_winner_pct :: real
  avg_loser_pct :: real
  total_pnl :: real
  max_drawdown_pct :: real
  sharpe_ratio :: real
  sortino_ratio :: real
  profit_factor :: real
  avg_days_held :: real
  best_trade_pct :: real
  worst_trade_pct :: real

text \<open>\<^verbatim>\<open>len\<close> as a float operand.\<close>

definition py_len :: "'a list \<Rightarrow> real" where
  "py_len xs = real (length xs)"

text \<open>\<^verbatim>\<open>max\<close> and \<^verbatim>\<open>min\<close> of a list raise on the empty list.\<close>

fun py_max :: "real list \<Rightarrow> error + real" where
  "py_max [] = Inl (ValueError ''max() arg is an empty sequence'')"
| "py_max (x # xs) = Inr (foldl max x xs)"

fun py_min :: "real list \<Rightarrow> error + real" where
  "py_min [] = Inl (ValueError ''min() arg is an empty sequence'')"
| "py_min (x # xs) = Inr (foldl min x xs)"

text \<open>The loop of \<^verbatim>\<open>_calculate_max_drawdown\<close> over the sorted results; the state is
  \<^verbatim>\<open>(cumulative_pnl, peak, max_dd)\<close>.\<close>

fun drawdown_loop :: "BacktestResult list \<Rightarrow> real \<times> real \<times> real \<Rightarrow> error + real \<times> real \<times> real" where
  "drawdown_loop [] st = Inr st"
| "drawdown_loop (result # rest) (cumulative_pnl, peak, max_dd) =
    (let cumulative_pnl' = cumulative_pnl + realized_pnl result;
         peak' = (if cumulative_pnl' > peak then cumulative_pnl' else peak)
     in if peak' > 0
        then bind_result (py_div (peak' - cumulative_pnl') peak')
               (\<lambda>q. let drawdown = q * 100
                    in drawdown_loop rest (cumulative_pnl', peak', max max_dd drawdown))
        else drawdown_loop rest (cumulative_pnl', peak', max_dd))"

definition calculate_max_drawdown :: "BacktestResult list \<Rightarrow> error + real" where
  "calculate_max_drawdown results =
    (if results = [] then Inr 0
     else bind_result (drawdown_loop (sort_key exit_date results) (0, 0, 0))
            (\<lambda>(cumulative_pnl, peak, max_dd). Inr max_dd))"

definition calculate_sharpe_ratio :: "real list \<Rightarrow> real \<Rightarrow> error + real" where
  "calculate_sharpe_ratio returns risk_free_rate =
    (if returns = [] \<or> length returns < 2 then Inr 0
     else
       bind_result (py_div (sum_list returns) (py_len returns)) (\<lambda>avg_return.
       bind_result (py_div (sum_list (map (\<lambda>r. (r - avg_return)\<^sup>2) returns)) (py_len returns - 1))
         (\<lambda>variance.
       bind_result (py_sqrt variance) (\<lambda>std_dev.
       if std_dev = 0 then Inr 0
       else
         bind_result (py_sqrt 10) (\<lambda>annualization_factor.
         bind_result (py_div (avg_return - risk_free_rate) std_dev) (\<lambda>q.
         Inr (q * annualization_factor)))))))"

definition calculate_sortino_ratio :: "real list \<Rightarrow> real \<Rightarrow> error + real" where
  "calculate_sortino_ratio returns risk_free_rate =
    (if returns = [] \<or> length returns < 2 then Inr 0
     else
       bind_result (py_div (sum_list returns) (py_len returns)) (\<lambda>avg_return.
       let downside_returns = filter (\<lambda>r. r < 0) returns in
       if downside_returns = [] then Inr 10
       else
         bind_result (py_div (sum_list (map (\<lambda>r. (r - 0)\<^sup>2) downside_returns))
                        (py_len downside_returns)) (\<lambda>downside_variance.
         bind_result (py_sqrt downside_variance) (\<lambda>downside_std.
         if downside_std = 0 then Inr 10
         else
           bind_result (py_sqrt 10) (\<lambda>annualization_factor.
           bind_result (py_div (avg_return - risk_free_rate) downside_std) (\<lambda>q.
           Inr (q * annualization_factor)))))))"

definition empty_metrics :: PerformanceMetrics where
  "empty_metrics =
     \<lparr>total_trades = 0, winners = 0, losers = 0, win_rate = 0, avg_return_pct = 0,
      avg_winner_pct = 0, avg_loser_pct = 0, total_pnl = 0, max_drawdown_pct = 0,
      sharpe_ratio = 0, sortino_ratio = 0, profit_factor = 0, avg_days_held = 0,
      best_trade_pct = 0, worst_trade_pct = 0\<rparr>"

definition calculate_metrics :: "BacktestResult list \<Rightarrow> error + PerformanceMetrics" where
  "calculate_metrics results =
    (if results = [] then Inr empty_metrics
     else
       let total_trades_v = int (length results);
           winners_v = sum_list (map (\<lambda>r. 1) (filter is_winner results));
           losers_v = total_trades_v - winners_v
       in
       bind_result
         (if total_trades_v > 0
          then bind_result (py_div (real_of_int winners_v) (real_of_int total_trades_v))
                 (\<lambda>q. Inr (q * 100))
          else Inr 0) (\<lambda>win_rate_v.
       let returns = map return_pct results in
       bind_result
         (if returns \<noteq> [] then py_div (sum_list returns) (py_len returns) else Inr 0)
         (\<lambda>avg_return_pct_v.
       let winner_returns = map return_pct (filter is_winner results) in
       bind_result
         (if winner_returns \<noteq> [] then py_div (sum_list winner_returns) (py_len winner_returns)
          else Inr 0) (\<lambda>avg_winner_pct_v.
       let loser_returns = map return_pct (filter (\<lambda>r. \<not> is_winner r) results) in
       bind_result
         (if loser_returns \<noteq> [] then py_div (sum_list loser_returns) (py_len loser_returns)
          else Inr 0) (\<lambda>avg_loser_pct_v.
       let total_pnl_v = sum_list (map realized_pnl results) in
       bind_result (if returns \<noteq> [] then py_max returns else Inr 0) (\<lambda>best_trade_pct_v.
       bind_result (if returns \<noteq> [] then py_min returns else Inr 0) (\<lambda>worst_trade_pct_v.
       let gross_profit = sum_list (map realized_pnl (filter is_winner results));
           gross_loss = \<bar>sum_list (map realized_pnl (filter (\<lambda>r. \<not> is_winner r) results))\<bar>
       in
       bind_result (if gross_loss > 0 then py_div gross_profit gross_loss else Inr 0)
         (\<lambda>profit_factor_v.
       bind_result (calculate_max_drawdown results) (\<lambda>max_drawdown_pct_v.
       bind_result (calculate_sharpe_ratio returns 0) (\<lambda>sharpe_ratio_v.
       bind_result (calculate_sortino_ratio returns 0) (\<lambda>sortino_ratio_v.
       bind_result
         (if results \<noteq> []
          then py_div (real_of_int (sum_list (map days_held results))) (py_len results)
          else Inr 0) (\<lambda>avg_days_held_v.
       Inr \<lparr>total_trades = total_trades_v, winners = winners_v, losers = losers_v,
            win_rate = win_rate_v, avg_return_pct = avg_return_pct_v,
            avg_winner_pct = avg_winner_pct_v, avg_loser_pct = avg_loser_pct_v,
            total_pnl = total_pnl_v, max_drawdown_pct = max_drawdown_pct_v,
            sharpe_ratio = sharpe_ratio_v, sortino_ratio = sortino_ratio_v,
            profit_factor = profit_factor_v, avg_days_held = avg_days_held_v,
            best_trade_pct = best_trade_pct_v, worst_trade_pct = worst_trade_pct_v\<rparr>))))))))))))"

section \<open>backtest/earnings\_analyzer.py\<close>

text \<open>
  The recommendation is a string built with f-strings; the model keeps which message is chosen
  and the numbers formatted into it:
  \<^item> \<open>InsufficientNoTrades\<close>: ``INSUFFICIENT DATA: Not enough trades to analyze earnings edge.'';
  \<^item> \<open>InsufficientTenEach\<close>: ``INSUFFICIENT DATA: Need at least 10 trades in each group for
    reliable analysis.'';
  \<^item> \<open>EdgeConfirmed p dw dr\<close>: ``EARNINGS EDGE CONFIRMED ...'' with the p-value, the win rate
    improvement and the return improvement;
  \<^item> \<open>WeakEvidence p\<close>, \<open>Unexpected p\<close>, \<open>NoEdge p\<close>: ``WEAK EVIDENCE ...'', ``UNEXPECTED ...'',
    ``NO EARNINGS EDGE ...'' with the p-value.
\<close>

datatype recommendation_text =
  InsufficientNoTrades
| InsufficientTenEach
| EdgeConfirmed real real real
| WeakEvidence real
| Unexpected real
| NoEdge real

record EarningsComparison =
  pre_earnings :: PerformanceMetrics
  post_earnings :: PerformanceMetrics
  no_earnings :: PerformanceMetrics
  win_rate_diff :: real
  avg_return_diff :: real
  sharpe_diff :: real
  is_significant :: bool
  p_value :: real
  recommendation :: recommendation_text

text \<open>The loop of \<^verbatim>\<open>_categorize_results\<close>; the state is the three lists
  \<^verbatim>\<open>(pre_earnings_results, post_earnings_results, no_earnings_results)\<close>.\<close>

fun categorize_loop ::
  "int \<Rightarrow> BacktestResult list
     \<Rightarrow> BacktestResult list \<times> BacktestResult list \<times> BacktestResult list
     \<Rightarrow> BacktestResult list \<times> BacktestResult list \<times> BacktestResult list" where
  "categorize_loop today [] st = st"
| "categorize_loop today (result # rest) (pre, post, no) =
    (if had_earnings result then categorize_loop today rest (pre @ [result], post, no)
     else if dte today (short_put (iron_condor result)) > 0
     then categorize_loop today rest (pre, post @ [result], no)
     else categorize_loop today rest (pre, post, no @ [result]))"

definition categorize_results ::
  "int \<Rightarrow> BacktestResult list
     \<Rightarrow> BacktestResult list \<times> BacktestResult list \<times> BacktestResult list" where
  "categorize_results today results = categorize_loop today results ([], [], [])"

definition approximate_p_value :: "real \<Rightarrow> real \<Rightarrow> real" where
  "approximate_p_value t_stat df =
    (if df > 30
     then (let z = t_stat in
           if z > 3.0 then 0.0027
           else if z > 2.5 then 0.0124
           else if z > 2.0 then 0.0455
           else if z > 1.96 then 0.05
           else if z > 1.5 then 0.1336
           else if z > 1.0 then 0.3173
           else 0.5)
     else (if t_stat > 2.5 then 0.02
           else if t_stat > 2.0 then 0.06
           else if t_stat > 1.5 then 0.15
           else 0.5))"

text \<open>\<^verbatim>\<open>_t_test\<close>. The quotients \<^verbatim>\<open>var1 / n1\<close> and \<^verbatim>\<open>var2 / n2\<close>, which the source writes
  out again in the degrees of freedom, are computed once, as \<open>v1\<close> and \<open>v2\<close>: computing them
  again gives the same values and cannot raise where the first computation did not.\<close>

definition t_test :: "real list \<Rightarrow> real list \<Rightarrow> error + bool \<times> real" where
  "t_test sample1 sample2 =
    (if sample1 = [] \<or> sample2 = [] then Inr (False, 1)
     else
       let n1 = py_len sample1; n2 = py_len sample2 in
       if n1 < 2 \<or> n2 < 2 then Inr (False, 1)
       else
         bind_result (py_div (sum_list sample1) n1) (\<lambda>mean1.
         bind_result (py_div (sum_list sample2) n2) (\<lambda>mean2.
         bind_result (py_div (sum_list (map (\<lambda>x. (x - mean1)\<^sup>2) sample1)) (n1 - 1)) (\<lambda>var1.
         bind_result (py_div (sum_list (map (\<lambda>x. (x - mean2)\<^sup>2) sample2)) (n2 - 1)) (\<lambda>var2.
         bind_result (py_div var1 n1) (\<lambda>v1.
         bind_result (py_div var2 n2) (\<lambda>v2.
         bind_result (py_sqrt (v1 + v2)) (\<lambda>pooled_se.
         if pooled_se = 0 then Inr (False, 1)
         else
           bind_result (py_div (mean1 - mean2) pooled_se) (\<lambda>t_stat.
           bind_result (py_div (v1\<^sup>2) (n1 - 1)) (\<lambda>d1.
           bind_result (py_div (v2\<^sup>2) (n2 - 1)) (\<lambda>d2.
           bind_result (py_div ((v1 + v2)\<^sup>2) (d1 + d2)) (\<lambda>df.
           let p_value_v = approximate_p_value \<bar>t_stat\<bar> df;
               is_significant_v = (p_value_v < 0.05)
           in Inr (is_significant_v, p_value_v)))))))))))))"

definition generate_recommendation ::
  "PerformanceMetrics \<Rightarrow> PerformanceMetrics \<Rightarrow> bool \<Rightarrow> real \<Rightarrow> recommendation_text" where
  "generate_recommendation pre_metrics post_metrics is_significant_v p_value_v =
    (if total_trades post_metrics = 0 \<and> total_trades pre_metrics = 0 then InsufficientNoTrades
     else if total_trades post_metrics < 10 \<or> total_trades pre_metrics < 10
     then InsufficientTenEach
     else if is_significant_v \<and> avg_return_pct post_metrics > avg_return_pct pre_metrics
     then EdgeConfirmed p_value_v (win_rate post_metrics - win_rate pre_metrics)
            (avg_return_pct post_metrics - avg_return_pct pre_metrics)
     else if \<not> is_significant_v \<and> avg_return_pct post_metrics > avg_return_pct pre_metrics
     then WeakEvidence p_value_v
     else if is_significant_v \<and> avg_return_pct pre_metrics > avg_return_pct post_metrics
     then Unexpected p_value_v
     else NoEdge p_value_v)"

text \<open>\<^verbatim>\<open>EarningsEdgeAnalyzer(results).analyze()\<close>: the constructor categorizes, \<^verbatim>\<open>analyze\<close>
  reads the three lists.\<close>

definition analyze :: "int \<Rightarrow> BacktestResult list \<Rightarrow> error + EarningsComparison" where
  "analyze today results =
    (case categorize_results today results of
       (pre_earnings_results, post_earnings_results, no_earnings_results) \<Rightarrow>
         bind_result (calculate_metrics pre_earnings_results) (\<lambda>pre_metrics.
         bind_result (calculate_metrics post_earnings_results) (\<lambda>post_metrics.
         bind_result (calculate_metrics no_earnings_results) (\<lambda>no_metrics.
         let win_rate_diff_v = win_rate post_metrics - win_rate pre_metrics;
             avg_return_diff_v = avg_return_pct post_metrics - avg_return_pct pre_metrics;
             sharpe_diff_v = sharpe_ratio post_metrics - sharpe_ratio pre_metrics
         in
         bind_result (t_test (map return_pct post_earnings_results)
                        (map return_pct pre_earnings_results)) (\<lambda>(is_significant_v, p_value_v).
         let recommendation_v =
               generate_recommendation pre_metrics post_metrics is_significant_v p_value_v
         in Inr \<lparr>pre_earnings = pre_metrics, post_earnings = post_metrics,
                 no_earnings = no_metrics, win_rate_diff = win_rate_diff_v,
                 avg_return_diff = avg_return_diff_v, sharpe_diff = sharpe_diff_v,
                 is_significant = is_significant_v, p_value = p_value_v,
                 recommendation = recommendation_v\<rparr>)))))"

section \<open>builders/condor\_builder.py\<close>

record StrategyConfig =
  min_dte :: int
  max_dte :: int
  min_delta :: real
  max_delta :: real
  wing_width_put :: real
  wing_width_call :: real
  allow_asymmetric :: bool

text \<open>
  A Python \<^verbatim>\<open>dict\<close> is an association list in insertion order with distinct keys:
  \<open>dict_set\<close> is \<^verbatim>\<open>d[k] = v\<close> (a key already present keeps its position and takes the new
  value), \<open>dict_append\<close> is \<^verbatim>\<open>d[k].append(v)\<close> on a \<^verbatim>\<open>defaultdict(list)\<close>.
\<close>

fun dict_set :: "'k \<Rightarrow> 'v \<Rightarrow> ('k \<times> 'v) list \<Rightarrow> ('k \<times> 'v) list" where
  "dict_set k v [] = [(k, v)]"
| "dict_set k v ((k', v') # d) = (if k' = k then (k', v) # d else (k', v') # dict_set k v d)"

fun dict_append :: "'k \<Rightarrow> 'v \<Rightarrow> ('k \<times> 'v list) list \<Rightarrow> ('k \<times> 'v list) list" where
  "dict_append k v [] = [(k, [v])]"
| "dict_append k v ((k', vs) # d) =
     (if k' = k then (k', vs @ [v]) # d else (k', vs) # dict_append k v d)"

text \<open>\<^verbatim>\<open>{opt.strike: opt for opt in opts}\<close>\<close>

definition by_strike :: "'q Option_contract list \<Rightarrow> (real \<times> 'q Option_contract) list" where
  "by_strike opts = foldl (\<lambda>d opt. dict_set (strike opt) opt d) [] opts"

definition group_by_expiration ::
  "'q Option_contract list \<Rightarrow> (int \<times> 'q Option_contract list) list" where
  "group_by_expiration options = foldl (\<lambda>by_exp opt. dict_append (expiration opt) opt by_exp) [] options"

text \<open>The \<^verbatim>\<open>for strike, option in strikes_dict.items()\<close> loop of \<^verbatim>\<open>_find_strike\<close>.\<close>

fun find_strike_loop ::
  "(real \<times> 'q Option_contract) list \<Rightarrow> real \<Rightarrow> real \<Rightarrow> 'q Option_contract option" where
  "find_strike_loop [] target_strike tolerance = None"
| "find_strike_loop ((strike_k, opt) # rest) target_strike tolerance =
     (if \<bar>strike_k - target_strike\<bar> \<le> tolerance then Some opt
      else find_strike_loop rest target_strike tolerance)"

definition find_strike ::
  "(real \<times> 'q Option_contract) list \<Rightarrow> real \<Rightarrow> real \<Rightarrow> 'q Option_contract option" where
  "find_strike strikes_dict target_strike tolerance =
    (case map_of strikes_dict target_strike of
       Some opt \<Rightarrow> Some opt
     | None \<Rightarrow> find_strike_loop strikes_dict target_strike tolerance)"

text \<open>\<^verbatim>\<open>_is_valid_condor\<close>: the three guards are float comparisons, false on a NaN operand.\<close>

definition is_valid_condor :: "pyfloat IronCondor \<Rightarrow> bool" where
  "is_valid_condor ic =
    (if float_le (net_credit_float ic) (Fin 0) then False
     else if float_le (max_loss_float ic) (Fin 0) then False
     else if float_ge (max_profit_float ic) (Fin (put_side_width ic))
             \<or> float_ge (max_profit_float ic) (Fin (call_side_width ic)) then False
     else True)"

text \<open>The inner loop \<^verbatim>\<open>for short_call in short_calls\<close>: a missing long call skips the
  candidate, and so does the \<^verbatim>\<open>ValueError\<close> of the constructor, the only exception it
  raises.\<close>

fun short_call_loop ::
  "StrategyConfig \<Rightarrow> int \<Rightarrow> (real \<times> pyfloat Option_contract) list \<Rightarrow> pyfloat Option_contract
     \<Rightarrow> pyfloat Option_contract \<Rightarrow> pyfloat Option_contract list \<Rightarrow> pyfloat IronCondor list" where
  "short_call_loop config expiration_d calls_by_strike short_put_o long_put_o [] = []"
| "short_call_loop config expiration_d calls_by_strike short_put_o long_put_o (short_call_o # rest) =
    (let long_call_strike = strike short_call_o + wing_width_call config in
     case find_strike calls_by_strike long_call_strike 0.5 of
       None \<Rightarrow> short_call_loop config expiration_d calls_by_strike short_put_o long_put_o rest
     | Some long_call_o \<Rightarrow>
         (case new_IronCondor (ticker short_put_o) expiration_d short_put_o long_put_o
                 short_call_o long_call_o of
            Inr ic \<Rightarrow>
              (if is_valid_condor ic then [ic] else [])
              @ short_call_loop config expiration_d calls_by_strike short_put_o long_put_o rest
          | Inl e \<Rightarrow>
              short_call_loop config expiration_d calls_by_strike short_put_o long_put_o rest))"

text \<open>The outer loop \<^verbatim>\<open>for short_put in short_puts\<close>.\<close>

fun short_put_loop ::
  "StrategyConfig \<Rightarrow> int \<Rightarrow> (real \<times> pyfloat Option_contract) list
     \<Rightarrow> (real \<times> pyfloat Option_contract) list \<Rightarrow> pyfloat Option_contract list
     \<Rightarrow> pyfloat Option_contract list \<Rightarrow> pyfloat IronCondor list" where
  "short_put_loop config expiration_d puts_by_strike calls_by_strike short_calls [] = []"
| "short_put_loop config expiration_d puts_by_strike calls_by_strike short_calls (short_put_o # rest) =
    (let long_put_strike = strike short_put_o - wing_width_put config in
     case find_strike puts_by_strike long_put_strike 0.5 of
       None \<Rightarrow> short_put_loop config expiration_d puts_by_strike calls_by_strike short_calls rest
     | Some long_put_o \<Rightarrow>
         short_call_loop config expiration_d calls_by_strike short_put_o long_put_o short_calls
         @ short_put_loop config expiration_d puts_by_strike calls_by_strike short_calls rest)"

definition generate_condors_for_expiration ::
  "pyfloat Option_contract list \<Rightarrow> int \<Rightarrow> StrategyConfig \<Rightarrow> pyfloat IronCondor list" where
  "generate_condors_for_expiration options expiration_d config =
    (let puts = filter (\<lambda>opt. option_type opt = ''put'') options;
         calls = filter (\<lambda>opt. option_type opt = ''call'') options
     in if puts = [] \<or> calls = [] then []
        else
          let puts_by_strike = by_strike puts;
              calls_by_strike = by_strike calls;
              short_puts = filter (\<lambda>p. - max_delta config \<le> delta p \<and> delta p \<le> - min_delta config) puts;
              short_calls = filter (\<lambda>c. min_delta config \<le> delta c \<and> delta c \<le> max_delta config) calls
          in short_put_loop config expiration_d puts_by_strike calls_by_strike short_calls short_puts)"

definition generate_iron_condors ::
  "int \<Rightarrow> pyfloat Option_contract list \<Rightarrow> StrategyConfig \<Rightarrow> pyfloat IronCondor list" where
  "generate_iron_condors today options config =
    (let valid_options =
           filter (\<lambda>opt. min_dte config \<le> dte today opt \<and> dte today opt \<le> max_dte config) options
     in if valid_options = [] then []
        else concat (map (\<lambda>(exp_date, exp_options).
                            generate_condors_for_expiration exp_options exp_date config)
                       (group_by_expiration valid_options)))"

text \<open>\<^verbatim>\<open>StrategyConfig()\<close> with the defaults of the constructor.\<close>

definition default_StrategyConfig :: StrategyConfig where
  "default_StrategyConfig =
     \<lparr>min_dte = 30, max_dte = 45, min_delta = 0.15, max_delta = 0.25, wing_width_put = 5.0,
      wing_width_call = 5.0, allow_asymmetric = True\<rparr>"

section \<open>Vocabulary for the claims about the simulator\<close>

text \<open>The conditions of the four exit rules at a sample, as the loop tests them, and the value
  that the position valuation returns (it never raises).\<close>

definition earnings_rule_fires :: "ExitRule \<Rightarrow> earnings_arg \<Rightarrow> int \<Rightarrow> bool" where
  "earnings_rule_fires exit_rule earnings dt =
    (case earnings of
       EarningsDate earnings_dt \<Rightarrow>
         close_before_earnings_days exit_rule > 0 \<and>
         0 \<le> earnings_dt - dt \<and> earnings_dt - dt \<le> close_before_earnings_days exit_rule
     | _ \<Rightarrow> False)"

definition min_dte_rule_fires :: "real IronCondor \<Rightarrow> ExitRule \<Rightarrow> int \<Rightarrow> bool" where
  "min_dte_rule_fires ic exit_rule dt = (ic_expiration ic - dt \<le> min_dte_to_close exit_rule)"

definition position_value :: "int \<Rightarrow> real IronCondor \<Rightarrow> real \<Rightarrow> int \<Rightarrow> real" where
  "position_value today ic price dt =
    (case estimate_position_value today ic price (ic_expiration ic - dt) of
       Inr v \<Rightarrow> v | Inl e \<Rightarrow> 0)"

definition profit_target_fires :: "real IronCondor \<Rightarrow> ExitRule \<Rightarrow> real \<Rightarrow> bool" where
  "profit_target_fires ic exit_rule current_value =
     (net_credit ic - current_value \<ge> max_profit ic * profit_target_pct exit_rule)"

definition stop_loss_fires :: "real IronCondor \<Rightarrow> ExitRule \<Rightarrow> real \<Rightarrow> bool" where
  "stop_loss_fires ic exit_rule current_value =
     (net_credit ic - current_value \<le> - max_loss ic * stop_loss_pct exit_rule)"

definition rule_fires :: "int \<Rightarrow> real IronCondor \<Rightarrow> ExitRule \<Rightarrow> earnings_arg \<Rightarrow> int \<times> real \<Rightarrow> bool" where
  "rule_fires today ic exit_rule earnings sample =
    (case sample of (dt, price) \<Rightarrow>
       earnings_rule_fires exit_rule earnings dt \<or> min_dte_rule_fires ic exit_rule dt
       \<or> profit_target_fires ic exit_rule (position_value today ic price dt)
       \<or> stop_loss_fires ic exit_rule (position_value today ic price dt))"

text \<open>A sample that the loop passes over: dated before the entry date, or dated up to the
  expiration with no rule firing.\<close>

definition passed_over ::
  "int \<Rightarrow> real IronCondor \<Rightarrow> int \<Rightarrow> ExitRule \<Rightarrow> earnings_arg \<Rightarrow> int \<times> real \<Rightarrow> bool" where
  "passed_over today ic entry exit_rule earnings sample =
    (case sample of (dt, price) \<Rightarrow>
       dt < entry \<or> (dt \<le> ic_expiration ic \<and> \<not> rule_fires today ic exit_rule earnings sample))"

text \<open>A sample at which no rule fires if it is dated within the holding period.\<close>

definition no_exit_at ::
  "int \<Rightarrow> real IronCondor \<Rightarrow> int \<Rightarrow> ExitRule \<Rightarrow> earnings_arg \<Rightarrow> int \<times> real \<Rightarrow> bool" where
  "no_exit_at today ic entry exit_rule earnings sample =
    (case sample of (dt, price) \<Rightarrow>
       \<not> (entry \<le> dt \<and> dt \<le> ic_expiration ic \<and> rule_fires today ic exit_rule earnings sample))"

definition price_inside :: "real IronCondor \<Rightarrow> int \<times> real \<Rightarrow> bool" where
  "price_inside ic sample =
    (case sample of (dt, price) \<Rightarrow> strike (short_put ic) < price \<and> price < strike (short_call ic))"

text \<open>A validated spread whose credit (18) exceeds both wing widths (5): the short legs of the
  fixture with mid price 10 and the long legs with mid price 1.\<close>

definition overpriced_condor :: "real IronCondor" where
  "overpriced_condor =
     \<lparr>ic_ticker = ''SPY'', ic_expiration = 52,
      short_put = sample_short_put\<lparr>bid := 9.9, ask := 10.1\<rparr>,
      long_put = sample_long_put\<lparr>bid := 0.9, ask := 1.1\<rparr>,
      short_call = sample_short_call\<lparr>bid := 9.9, ask := 10.1\<rparr>,
      long_call = sample_long_call\<lparr>bid := 0.9, ask := 1.1\<rparr>\<rparr>"

text \<open>Exit configurations and price paths for the examples: \<open>patient_ExitRule\<close> takes profit
  at 90 percent of the maximum profit only, \<open>hold_ExitRule\<close> has a profit target that cannot be
  reached and a negative minimum-DTE threshold.\<close>

definition patient_ExitRule :: ExitRule where
  "patient_ExitRule =
     \<lparr>profit_target_pct = 0.9, stop_loss_pct = 1.0, min_dte_to_close = 21,
      close_before_earnings_days = 3\<rparr>"

definition hold_ExitRule :: ExitRule where
  "hold_ExitRule =
     \<lparr>profit_target_pct = 2, stop_loss_pct = 1.0, min_dte_to_close = - 1,
      close_before_earnings_days = 3\<rparr>"

definition calm_path :: "(int \<times> real) list" where
  "calm_path = [(15, 560), (25, 562), (35, 558), (45, 560), (52, 560)]"

text \<open>The winning outcome that tests/test\_backtest.py builds (entry on day 15, exit 30 days
  later), and variants of it with other return percentages and earnings flags.\<close>

definition winning_outcome :: BacktestResult where
  "winning_outcome =
     \<lparr>iron_condor = sample_iron_condor, entry_date = 15, exit_date = 45,
      exit_reason = ''expiration'', entry_credit = 425, exit_cost = 0, realized_pnl = 425,
      res_max_profit = 425, res_max_loss = 75, return_pct = 566.67, days_held = 30,
      is_winner = True, had_earnings = False\<rparr>"

definition outcome_with :: "real \<Rightarrow> bool \<Rightarrow> BacktestResult" where
  "outcome_with ret had = winning_outcome\<lparr>return_pct := ret, had_earnings := had\<rparr>"

text \<open>Four outcomes of a spread that is still open on day 15: two without earnings in the
  holding period (returns 97 and 103 percent) and two with (returns -4 and 4 percent).\<close>

definition small_sample :: "BacktestResult list" where
  "small_sample =
     [outcome_with 97 False, outcome_with 103 False, outcome_with (- 4) True, outcome_with 4 True]"

text \<open>A contract and a spread with finite quotes, as the candidate generator sees them.\<close>

definition quoted :: "real Option_contract \<Rightarrow> pyfloat Option_contract" where
  "quoted opt =
     \<lparr>ticker = ticker opt, strike = strike opt, expiration = expiration opt,
      option_type = option_type opt, bid = Fin (bid opt), ask = Fin (ask opt),
      volume = volume opt, open_interest = open_interest opt, delta = delta opt,
      implied_vol = implied_vol opt, last_price = last_price opt, gamma = gamma opt,
      theta = theta opt, vega = vega opt\<rparr>"

definition quoted_condor :: "real IronCondor \<Rightarrow> pyfloat IronCondor" where
  "quoted_condor ic =
     \<lparr>ic_ticker = ic_ticker ic, ic_expiration = ic_expiration ic,
      short_put = quoted (short_put ic), long_put = quoted (long_put ic),
      short_call = quoted (short_call ic), long_call = quoted (long_call ic)\<rparr>"

text \<open>The four legs of the fixture as an option chain; the same chain with the bid of the short
  put read as NaN (a row with \<^verbatim>\<open>bid = nan\<close>), and the spread of these legs; a chain of three
  puts with strikes 95.0, 95.5 and 100 for the strike lookup.\<close>

definition sample_chain :: "pyfloat Option_contract list" where
  "sample_chain =
     [quoted sample_long_put, quoted sample_short_put, quoted sample_short_call,
      quoted sample_long_call]"

definition nan_short_put :: "pyfloat Option_contract" where
  "nan_short_put = (quoted sample_short_put)\<lparr>bid := NaN\<rparr>"

definition nan_chain :: "pyfloat Option_contract list" where
  "nan_chain =
     [quoted sample_long_put, nan_short_put, quoted sample_short_call, quoted sample_long_call]"

definition nan_condor :: "pyfloat IronCondor" where
  "nan_condor =
     \<lparr>ic_ticker = ''SPY'', ic_expiration = 52, short_put = nan_short_put,
      long_put = quoted sample_long_put, short_call = quoted sample_short_call,
      long_call = quoted sample_long_call\<rparr>"

definition put_95 :: "real Option_contract" where
  "put_95 = sample_long_put\<lparr>strike := 95\<rparr>"

definition put_95_5 :: "real Option_contract" where
  "put_95_5 = sample_long_put\<lparr>strike := 95.5\<rparr>"

definition put_100 :: "real Option_contract" where
  "put_100 = sample_short_put\<lparr>strike := 100\<rparr>"

section \<open>Facts about the spread model\<close>

lemma sample_iron_condor_valid: "post_init sample_iron_condor = Inr sample_iron_condor"
  by (simp add: post_init_def sample_iron_condor_def sample_short_put_def sample_long_put_def
      sample_short_call_def sample_long_call_def)

lemma post_init_strikes:
  assumes "post_init ic = Inr ic'"
  shows "ic' = ic" and "strike (long_put ic) < strike (short_put ic)"
    and "strike (short_put ic) < strike (short_call ic)"
    and "strike (short_call ic) < strike (long_call ic)"
  using assms by (auto simp: post_init_def split: if_splits)

lemmas sample_defs = sample_iron_condor_def sample_short_put_def sample_long_put_def
  sample_short_call_def sample_long_call_def

lemmas condor_defs = net_credit_def max_profit_def put_side_width_def call_side_width_def
  max_loss_put_side_def max_loss_call_side_def max_loss_def mid_def

lemma bind_result_Inr [simp]: "bind_result (Inr x) f = f x"
  by (simp add: bind_result_def)

lemma bind_result_Inl [simp]: "bind_result (Inl e) f = Inl e"
  by (simp add: bind_result_def)

lemma py_div_nonzero: "b \<noteq> 0 \<Longrightarrow> py_div a b = Inr (a / b)"
  by (simp add: py_div_def)

section \<open>Expiration valuation\<close>

text \<open>
  C1 (as stated, refuted). The claim says that the expiration value of a breached side is the
  intrinsic spread value in the units of the strikes and never exceeds that side's wing width.
  For the spread of the test fixture (short put 545, long put 540) and the final price 540 the
  intrinsic spread value is 5 and the put wing is 5 wide, but the function returns 500.
\<close>

theorem expiration_value_exceeds_wing_width:
  "post_init sample_iron_condor = Inr sample_iron_condor
   \<and> strike (short_put sample_iron_condor) = 545
   \<and> strike (long_put sample_iron_condor) = 540
   \<and> put_side_width sample_iron_condor = 5
   \<and> calculate_expiration_value sample_iron_condor 540 = 500
   \<and> \<not> calculate_expiration_value sample_iron_condor 540 \<le> put_side_width sample_iron_condor"
  by (simp add: sample_iron_condor_valid)
     (simp add: calculate_expiration_value_def put_side_width_def sample_defs)

text \<open>
  C1 (amended). For every validated spread and every final price, the expiration value is 0
  when the price lies strictly between the short strikes, and otherwise it is 100 times the
  breached side's intrinsic spread value (short-leg intrinsic minus long-leg intrinsic); that
  value lies between 0 and 100 times the wing width of the breached side.
\<close>

theorem expiration_value_times_100:
  assumes "post_init ic = Inr ic"
  shows "(strike (short_put ic) < p \<and> p < strike (short_call ic)
            \<longrightarrow> calculate_expiration_value ic p = 0)
       \<and> (p \<le> strike (short_put ic)
            \<longrightarrow> calculate_expiration_value ic p
                  = (max 0 (strike (short_put ic) - p) - max 0 (strike (long_put ic) - p)) * 100
              \<and> 0 \<le> calculate_expiration_value ic p
              \<and> calculate_expiration_value ic p \<le> 100 * put_side_width ic)
       \<and> (strike (short_call ic) \<le> p
            \<longrightarrow> calculate_expiration_value ic p
                  = (max 0 (p - strike (short_call ic)) - max 0 (p - strike (long_call ic))) * 100
              \<and> 0 \<le> calculate_expiration_value ic p
              \<and> calculate_expiration_value ic p \<le> 100 * call_side_width ic)"
proof -
  note s = post_init_strikes(2-4)[OF assms]
  show ?thesis using s
    by (auto simp: calculate_expiration_value_def Let_def put_side_width_def
        call_side_width_def max_def)
qed

theorem expiration_value_times_100_witness:
  "post_init sample_iron_condor = Inr sample_iron_condor
   \<and> calculate_expiration_value sample_iron_condor 560 = 0
   \<and> calculate_expiration_value sample_iron_condor 542 = 300
   \<and> calculate_expiration_value sample_iron_condor 600 = 500
   \<and> 100 * call_side_width sample_iron_condor = 500"
  using expiration_value_times_100[OF sample_iron_condor_valid, of 560]
        expiration_value_times_100[OF sample_iron_condor_valid, of 542]
        expiration_value_times_100[OF sample_iron_condor_valid, of 600]
  by (simp add: sample_iron_condor_valid) (simp add: sample_defs call_side_width_def)

section \<open>The simulator returns\<close>

lemma estimate_position_value_inside:
  assumes "strike (short_put ic) < price" "price < strike (short_call ic)"
  shows "estimate_position_value today ic price d
         = Inr (max_profit ic * (real_of_int d / real_of_int (max (dte today (short_put ic)) 1)) * 0.3)"
proof -
  have "real_of_int (max (dte today (short_put ic)) 1) \<noteq> 0" by simp
  then show ?thesis using assms
    by (simp add: estimate_position_value_def Let_def py_div_nonzero del: of_int_max)
qed

lemma estimate_position_value_total:
  "\<exists>v. estimate_position_value today ic price d = Inr v"
proof (cases "strike (short_put ic) < price \<and> price < strike (short_call ic)")
  case True
  then show ?thesis by (simp add: estimate_position_value_inside)
next
  case False
  then show ?thesis by (auto simp: estimate_position_value_def Let_def)
qed

text \<open>What \<^verbatim>\<open>simulate_iron_condor\<close> builds from the state in which the loop ends: neither the
  pricing at expiration nor the return percentage raises.\<close>

lemma simulate_result:
  assumes "simulate_loop today ic entry exit_rule earnings path (ic_expiration ic, ''expiration'', 0)
           = Inr (d, reason, c)"
  shows "\<exists>r. simulate_iron_condor today ic entry exit_rule path earnings = Inr r
          \<and> exit_date r = d \<and> exit_reason r = reason
          \<and> exit_cost r = (if reason = ''expiration''
                           then calculate_expiration_value ic (if path \<noteq> [] then snd (last path) else 0)
                           else c)
          \<and> realized_pnl r = net_credit ic - exit_cost r
          \<and> entry_credit r = net_credit ic"
  using assms
  by (cases "max_loss ic > 0") (simp_all add: simulate_iron_condor_def Let_def py_div_nonzero)

section \<open>The empty price path\<close>

text \<open>
  C10. For every spread, entry date, exit configuration and earnings argument, the simulator
  called with the empty price path does not raise: it returns an outcome with exit reason
  \<^verbatim>\<open>expiration\<close>, exit date equal to the expiration date, and the spread priced at expiration
  for the final price 0. For a validated spread whose long put strike is not negative that
  price is the fully breached put side, 100 times the put wing width.
\<close>

theorem empty_path_expiration:
  "\<exists>r. simulate_iron_condor today ic entry exit_rule [] earnings = Inr r
      \<and> exit_reason r = ''expiration''
      \<and> exit_date r = ic_expiration ic
      \<and> exit_cost r = calculate_expiration_value ic 0
      \<and> realized_pnl r = net_credit ic - calculate_expiration_value ic 0
      \<and> (post_init ic = Inr ic \<and> 0 \<le> strike (long_put ic)
           \<longrightarrow> exit_cost r = 100 * put_side_width ic)"
proof -
  have loop: "simulate_loop today ic entry exit_rule earnings [] (ic_expiration ic, ''expiration'', 0)
        = Inr (ic_expiration ic, ''expiration'', 0)" by simp
  from simulate_result[OF loop] obtain r where
    r: "simulate_iron_condor today ic entry exit_rule [] earnings = Inr r"
       "exit_date r = ic_expiration ic" "exit_reason r = ''expiration''"
       "exit_cost r = calculate_expiration_value ic 0"
       "realized_pnl r = net_credit ic - exit_cost r"
    by auto
  have "exit_cost r = 100 * put_side_width ic"
    if v: "post_init ic = Inr ic" and nn: "0 \<le> strike (long_put ic)"
  proof -
    note s = post_init_strikes(2-4)[OF v]
    show ?thesis using s nn r(4)
      by (simp add: calculate_expiration_value_def Let_def put_side_width_def)
  qed
  with r show ?thesis by auto
qed

theorem empty_path_expiration_witness:
  "\<exists>r. simulate_iron_condor 15 sample_iron_condor 15 default_ExitRule [] NoEarningsDate = Inr r
      \<and> exit_reason r = ''expiration'' \<and> exit_date r = 52 \<and> exit_cost r = 500
      \<and> realized_pnl r = 2.9 - 500"
proof -
  have w: "100 * put_side_width sample_iron_condor = 500" "net_credit sample_iron_condor = 2.9"
    "0 \<le> strike (long_put sample_iron_condor)" "ic_expiration sample_iron_condor = 52"
    by (simp_all add: sample_defs condor_defs)
  show ?thesis
    using empty_path_expiration[of 15 sample_iron_condor 15 default_ExitRule NoEarningsDate]
      sample_iron_condor_valid w
    by auto
qed

section \<open>The exit rules of the simulator\<close>

lemma position_value_eq:
  "estimate_position_value today ic price (ic_expiration ic - dt) = Inr (position_value today ic price dt)"
  using estimate_position_value_total[of today ic price "ic_expiration ic - dt"]
  by (auto simp: position_value_def)

text \<open>One iteration of the loop at a sample dated within the holding period: the four rules
  are tried in the order of the source, and the loop goes on only if none fires.\<close>

lemma simulate_loop_in_range:
  assumes "entry \<le> dt" "dt \<le> ic_expiration ic"
  shows "simulate_loop today ic entry exit_rule earnings ((dt, price) # rest) st =
    (if earnings_rule_fires exit_rule earnings dt then Inr (dt, ''earnings'', max_profit ic * 0.30)
     else if min_dte_rule_fires ic exit_rule dt then Inr (dt, ''min_dte'', max_profit ic * 0.25)
     else if profit_target_fires ic exit_rule (position_value today ic price dt)
     then Inr (dt, ''profit_target'', position_value today ic price dt)
     else if stop_loss_fires ic exit_rule (position_value today ic price dt)
     then Inr (dt, ''stop_loss'', position_value today ic price dt)
     else simulate_loop today ic entry exit_rule earnings rest st)"
  using assms
  by (simp add: earnings_rule_fires_def min_dte_rule_fires_def profit_target_fires_def
      stop_loss_fires_def estimate_exit_cost_def position_value_eq Let_def)

lemma simulate_loop_before_entry:
  "dt < entry \<Longrightarrow> simulate_loop today ic entry exit_rule earnings ((dt, price) # rest) st
     = simulate_loop today ic entry exit_rule earnings rest st"
  by simp

lemma simulate_loop_after_expiration:
  "entry \<le> dt \<Longrightarrow> ic_expiration ic < dt \<Longrightarrow>
   simulate_loop today ic entry exit_rule earnings ((dt, price) # rest) st = Inr st"
  by simp

lemma simulate_loop_passed_over:
  assumes "list_all (passed_over today ic entry exit_rule earnings) pre"
  shows "simulate_loop today ic entry exit_rule earnings (pre @ rest) st
         = simulate_loop today ic entry exit_rule earnings rest st"
  using assms
proof (induction pre)
  case Nil
  then show ?case by simp
next
  case (Cons s pre)
  obtain dt price where s: "s = (dt, price)" by (cases s)
  from Cons.prems have p: "passed_over today ic entry exit_rule earnings (dt, price)"
    and rest: "list_all (passed_over today ic entry exit_rule earnings) pre"
    by (simp_all add: s)
  show ?case
  proof (cases "dt < entry")
    case True
    then show ?thesis using Cons.IH[OF rest] by (simp add: s del: simulate_loop.simps add: simulate_loop_before_entry)
  next
    case False
    with p have r: "entry \<le> dt" "dt \<le> ic_expiration ic"
      and q: "\<not> rule_fires today ic exit_rule earnings (dt, price)"
      by (auto simp: passed_over_def)
    from q show ?thesis using Cons.IH[OF rest]
      by (simp add: s simulate_loop_in_range[OF r] rule_fires_def del: simulate_loop.simps)
  qed
qed

lemma simulate_loop_no_exit:
  assumes "list_all (no_exit_at today ic entry exit_rule earnings) path"
  shows "simulate_loop today ic entry exit_rule earnings path st = Inr st"
  using assms
proof (induction path)
  case Nil
  then show ?case by simp
next
  case (Cons s path)
  obtain dt price where s: "s = (dt, price)" by (cases s)
  from Cons.prems have p: "no_exit_at today ic entry exit_rule earnings (dt, price)"
    and rest: "list_all (no_exit_at today ic entry exit_rule earnings) path"
    by (simp_all add: s)
  consider "dt < entry" | "entry \<le> dt" "ic_expiration ic < dt" | "entry \<le> dt" "dt \<le> ic_expiration ic"
    by linarith
  then show ?case
  proof cases
    case 1
    then show ?thesis using Cons.IH[OF rest]
      by (simp add: s simulate_loop_before_entry del: simulate_loop.simps)
  next
    case 2
    then show ?thesis
      by (simp add: s simulate_loop_after_expiration del: simulate_loop.simps)
  next
    case 3
    with p have q: "\<not> rule_fires today ic exit_rule earnings (dt, price)"
      by (simp add: no_exit_at_def)
    from q show ?thesis using Cons.IH[OF rest]
      by (simp add: s simulate_loop_in_range[OF 3] rule_fires_def del: simulate_loop.simps)
  qed
qed

text \<open>
  C6. The loop skips the samples dated before the entry date and goes through the samples
  dated up to the expiration at which no rule fires. At the first sample in the holding period
  at which a rule fires, the simulator stops with that date as exit date, and the rule that
  decides is the first in the order earnings, minimum DTE, profit target, stop loss: an
  earnings exit costs 30 percent of the maximum profit, a minimum-DTE exit 25 percent, and a
  profit-target or stop-loss exit costs the estimated position value.
\<close>

theorem exit_rules_priority:
  assumes "list_all (passed_over today ic entry exit_rule earnings) pre"
    and "entry \<le> dt" and "dt \<le> ic_expiration ic"
    and "rule_fires today ic exit_rule earnings (dt, price)"
  shows "\<exists>r. simulate_iron_condor today ic entry exit_rule (pre @ (dt, price) # rest) earnings = Inr r
          \<and> exit_date r = dt
          \<and> (exit_reason r, exit_cost r) =
              (if earnings_rule_fires exit_rule earnings dt
               then (''earnings'', 0.30 * max_profit ic)
               else if min_dte_rule_fires ic exit_rule dt
               then (''min_dte'', 0.25 * max_profit ic)
               else if profit_target_fires ic exit_rule (position_value today ic price dt)
               then (''profit_target'', position_value today ic price dt)
               else (''stop_loss'', position_value today ic price dt))"
proof -
  let ?st = "(ic_expiration ic, ''expiration'', 0::real)"
  let ?v = "position_value today ic price dt"
  let ?out = "(if earnings_rule_fires exit_rule earnings dt
               then (''earnings'', 0.30 * max_profit ic)
               else if min_dte_rule_fires ic exit_rule dt
               then (''min_dte'', 0.25 * max_profit ic)
               else if profit_target_fires ic exit_rule ?v
               then (''profit_target'', ?v)
               else (''stop_loss'', ?v))"
  have "simulate_loop today ic entry exit_rule earnings (pre @ (dt, price) # rest) ?st
        = simulate_loop today ic entry exit_rule earnings ((dt, price) # rest) ?st"
    by (rule simulate_loop_passed_over[OF assms(1)])
  also have "\<dots> = Inr (dt, fst ?out, snd ?out)"
    using assms(4) by (auto simp: simulate_loop_in_range[OF assms(2,3)] rule_fires_def simp del: simulate_loop.simps)
  finally have loop: "simulate_loop today ic entry exit_rule earnings (pre @ (dt, price) # rest) ?st
        = Inr (dt, fst ?out, snd ?out)" .
  have ne: "fst ?out \<noteq> ''expiration''" by simp
  from simulate_result[OF loop] obtain r where
    r: "simulate_iron_condor today ic entry exit_rule (pre @ (dt, price) # rest) earnings = Inr r"
       "exit_date r = dt" "exit_reason r = fst ?out"
    and c: "exit_cost r = (if fst ?out = ''expiration''
              then calculate_expiration_value ic
                     (if pre @ (dt, price) # rest \<noteq> [] then snd (last (pre @ (dt, price) # rest)) else 0)
              else snd ?out)"
    by blast
  from c ne have "exit_cost r = snd ?out" by (simp only: if_False)
  with r(3) have "(exit_reason r, exit_cost r) = ?out" by (simp only: prod.collapse)
  with r(1,2) show ?thesis by blast
qed

text \<open>The four instances: an earnings exit after two samples passed over (one before the
  entry date), a minimum-DTE exit, a profit-target exit, and a stop-loss exit (the simulation is
  run on day 100, after the expiration, so the initial DTE read from the clock is negative).\<close>

lemma sample_values:
  "net_credit sample_iron_condor = 2.9" "max_profit sample_iron_condor = 2.9"
  "max_loss sample_iron_condor = 2.1" "ic_expiration sample_iron_condor = 52"
  "strike (short_put sample_iron_condor) = 545" "strike (short_call sample_iron_condor) = 575"
  "strike (long_put sample_iron_condor) = 540" "strike (long_call sample_iron_condor) = 580"
  "dte today (short_put sample_iron_condor) = 52 - today"
  by (simp_all add: sample_defs condor_defs dte_def)

lemma sample_position_value_inside:
  assumes "545 < price" "price < 575"
  shows "position_value today sample_iron_condor price dt
         = 2.9 * (real_of_int (52 - dt) / real_of_int (max (52 - today) 1)) * 0.3"
  using assms
  by (simp add: position_value_def estimate_position_value_inside sample_values del: of_int_max)

lemmas rule_defs = rule_fires_def earnings_rule_fires_def min_dte_rule_fires_def
  profit_target_fires_def stop_loss_fires_def

theorem exit_rules_priority_witness:
  "(\<exists>r. simulate_iron_condor 15 sample_iron_condor 15 patient_ExitRule
          ([(10, 560), (15, 560)] @ (18, 561) # [(19, 559)]) (EarningsDate 20) = Inr r
        \<and> exit_date r = 18 \<and> (exit_reason r, exit_cost r) = (''earnings'', 0.87))
   \<and> (\<exists>r. simulate_iron_condor 15 sample_iron_condor 15 patient_ExitRule
          ([(15, 560)] @ (31, 560) # [(40, 560)]) NoEarningsDate = Inr r
        \<and> exit_date r = 31 \<and> (exit_reason r, exit_cost r) = (''min_dte'', 0.725))
   \<and> (\<exists>r. simulate_iron_condor 15 sample_iron_condor 15 default_ExitRule
          ([] @ (15, 560) # [(52, 560)]) NoEarningsDate = Inr r
        \<and> exit_date r = 15 \<and> (exit_reason r, exit_cost r) = (''profit_target'', 0.87))
   \<and> (\<exists>r. simulate_iron_condor 100 sample_iron_condor 15 default_ExitRule
          ([] @ (15, 560) # [(52, 560)]) NoEarningsDate = Inr r
        \<and> exit_date r = 15 \<and> (exit_reason r, exit_cost r) = (''stop_loss'', 32.19))"
proof -
  have v15: "position_value 15 sample_iron_condor 560 15 = 0.87"
    and v100: "position_value 100 sample_iron_condor 560 15 = 32.19"
    and v18: "position_value 15 sample_iron_condor 561 18 = 2.9 * (34 / 37) * 0.3"
    and v31: "position_value 15 sample_iron_condor 560 31 = 2.9 * (21 / 37) * 0.3"
    by (simp_all add: sample_position_value_inside)
  have a: "list_all (passed_over 15 sample_iron_condor 15 patient_ExitRule (EarningsDate 20))
             [(10, 560), (15, 560)]"
    by (simp add: passed_over_def rule_defs v15 sample_values patient_ExitRule_def)
  have a': "rule_fires 15 sample_iron_condor patient_ExitRule (EarningsDate 20) (18, 561)"
    by (simp add: rule_defs patient_ExitRule_def)
  have b: "list_all (passed_over 15 sample_iron_condor 15 patient_ExitRule NoEarningsDate)
             [(15, 560)]"
    by (simp add: passed_over_def rule_defs v15 sample_values patient_ExitRule_def)
  have b': "rule_fires 15 sample_iron_condor patient_ExitRule NoEarningsDate (31, 560)"
    by (simp add: rule_defs patient_ExitRule_def sample_values)
  have c': "rule_fires 15 sample_iron_condor default_ExitRule NoEarningsDate (15, 560)"
    by (simp add: rule_defs default_ExitRule_def sample_values v15)
  have d': "rule_fires 100 sample_iron_condor default_ExitRule NoEarningsDate (15, 560)"
    by (simp add: rule_defs default_ExitRule_def sample_values v100)
  have e: "list_all (passed_over t sample_iron_condor 15 default_ExitRule NoEarningsDate) []" for t
    by simp
  have r: "(15::int) \<le> 18" "(18::int) \<le> ic_expiration sample_iron_condor"
     "(15::int) \<le> 31" "(31::int) \<le> ic_expiration sample_iron_condor"
     "(15::int) \<le> 15" "(15::int) \<le> ic_expiration sample_iron_condor"
    by (simp_all add: sample_values)
  show ?thesis
    using exit_rules_priority[OF a r(1,2) a', of "[(19, 559)]"]
          exit_rules_priority[OF b r(3,4) b', of "[(40, 560)]"]
          exit_rules_priority[OF e r(5,6) c', of "[(52, 560)]"]
          exit_rules_priority[OF e r(5,6) d', of "[(52, 560)]"]
    by (simp add: rule_defs patient_ExitRule_def default_ExitRule_def sample_values v15 v100 v18 v31)
qed

section \<open>A path inside the short strikes\<close>

text \<open>
  C2 (as stated, refuted). With the default exit configuration, a path that stays at 558 to
  562 between the short strikes 545 and 575 and reaches the expiration date is closed at the
  profit target on the entry date, with a realized P&L of 2.03 instead of the credit 2.90.
\<close>

theorem inside_path_exits_early:
  "list_all (price_inside sample_iron_condor) calm_path
   \<and> ic_expiration sample_iron_condor \<in> set (map fst calm_path)
   \<and> net_credit sample_iron_condor = 2.9
   \<and> map_sum id exit_reason
       (simulate_iron_condor 15 sample_iron_condor 15 default_ExitRule calm_path NoEarningsDate)
     = Inr ''profit_target''
   \<and> map_sum id realized_pnl
       (simulate_iron_condor 15 sample_iron_condor 15 default_ExitRule calm_path NoEarningsDate)
     = Inr 2.03"
proof -
  have v15: "position_value 15 sample_iron_condor 560 15 = 0.87"
    by (simp add: sample_position_value_inside)
  have loop: "simulate_loop 15 sample_iron_condor 15 default_ExitRule NoEarningsDate calm_path
          (ic_expiration sample_iron_condor, ''expiration'', 0) = Inr (15, ''profit_target'', 0.87)"
    unfolding calm_path_def
    by (subst simulate_loop_in_range)
       (simp_all add: rule_defs default_ExitRule_def sample_values v15)
  from simulate_result[OF loop] obtain r where
    "simulate_iron_condor 15 sample_iron_condor 15 default_ExitRule calm_path NoEarningsDate = Inr r"
    "exit_reason r = ''profit_target''" "realized_pnl r = net_credit sample_iron_condor - exit_cost r"
    "exit_cost r = 0.87"
    by auto
  then show ?thesis
    by (simp add: sample_values) (simp add: calm_path_def price_inside_def sample_values)
qed

text \<open>
  C2 (amended). For every spread, entry date, exit configuration, earnings argument and
  non-empty price path in which every sampled price stays strictly between the two short
  strikes and no exit rule fires at a sample dated from the entry date to the expiration, the
  simulator returns an outcome with exit reason \<^verbatim>\<open>expiration\<close>, exit date the expiration
  date, exit cost 0 and realized P&L equal to the entry credit.
\<close>

theorem inside_path_held_to_expiration:
  assumes "path \<noteq> []"
    and "list_all (price_inside ic) path"
    and "list_all (no_exit_at today ic entry exit_rule earnings) path"
  shows "\<exists>r. simulate_iron_condor today ic entry exit_rule path earnings = Inr r
          \<and> exit_reason r = ''expiration''
          \<and> exit_date r = ic_expiration ic
          \<and> exit_cost r = 0
          \<and> entry_credit r = net_credit ic
          \<and> realized_pnl r = entry_credit r"
proof -
  from assms(1,2) have "price_inside ic (last path)"
    by (simp add: list_all_iff)
  then have "calculate_expiration_value ic (snd (last path)) = 0"
    by (cases "last path") (simp add: price_inside_def calculate_expiration_value_def)
  with simulate_result[OF simulate_loop_no_exit[OF assms(3)]] assms(1)
  show ?thesis by auto
qed

theorem inside_path_held_to_expiration_witness:
  "calm_path \<noteq> [] \<and> list_all (price_inside sample_iron_condor) calm_path
   \<and> list_all (no_exit_at 15 sample_iron_condor 15 hold_ExitRule NoEarningsDate) calm_path
   \<and> ic_expiration sample_iron_condor \<in> set (map fst calm_path)
   \<and> (\<exists>r. simulate_iron_condor 15 sample_iron_condor 15 hold_ExitRule calm_path NoEarningsDate = Inr r
          \<and> exit_reason r = ''expiration'' \<and> exit_date r = 52 \<and> realized_pnl r = 2.9)"
proof -
  have a: "calm_path \<noteq> []" by (simp add: calm_path_def)
  have b: "list_all (price_inside sample_iron_condor) calm_path"
    by (simp add: calm_path_def price_inside_def sample_values)
  have c: "list_all (no_exit_at 15 sample_iron_condor 15 hold_ExitRule NoEarningsDate) calm_path"
    by (simp add: calm_path_def no_exit_at_def rule_defs hold_ExitRule_def sample_values
        sample_position_value_inside)
  have d: "ic_expiration sample_iron_condor \<in> set (map fst calm_path)"
    by (simp add: calm_path_def sample_values)
  show ?thesis
    using inside_path_held_to_expiration[OF a b c] a b c d by (auto simp: sample_values)
qed

section \<open>The position value at a short strike\<close>

lemma overpriced_condor_valid: "post_init overpriced_condor = Inr overpriced_condor"
  by (simp add: post_init_def overpriced_condor_def sample_defs)

text \<open>
  C9 (as stated, refuted). For a validated spread whose credit exceeds both wing widths the
  maximum loss is negative (here 5 - 18 = -13), and at a price equal to the short put strike
  the position value is the cap, -13, not 0.
\<close>

theorem boundary_value_negative:
  "post_init overpriced_condor = Inr overpriced_condor
   \<and> strike (short_put overpriced_condor) = 545
   \<and> estimate_position_value 15 overpriced_condor 545 37 = Inr (- 13)"
  by (simp add: overpriced_condor_valid)
     (simp add: estimate_position_value_def overpriced_condor_def sample_defs condor_defs)

text \<open>
  C9 (amended). For every validated spread and every remaining DTE, at a price equal to the
  short put strike or to the short call strike the condition of the time-decay branch is false
  and the position value is that of the breached-side intrinsic branch, where both intrinsic
  values are zero: the function returns the smaller of 0 and the maximum loss, which is 0
  whenever the maximum loss is not negative.
\<close>

theorem boundary_value_intrinsic_branch:
  assumes "post_init ic = Inr ic"
    and "price = strike (short_put ic) \<or> price = strike (short_call ic)"
  shows "\<not> (strike (short_put ic) < price \<and> price < strike (short_call ic))
       \<and> estimate_position_value today ic price d = Inr (min 0 (max_loss ic))
       \<and> (0 \<le> max_loss ic \<longrightarrow> estimate_position_value today ic price d = Inr 0)"
proof -
  note s = post_init_strikes(2-4)[OF assms(1)]
  show ?thesis using s assms(2)
    by (auto simp: estimate_position_value_def Let_def)
qed

theorem boundary_value_intrinsic_branch_witness:
  "post_init sample_iron_condor = Inr sample_iron_condor
   \<and> 0 \<le> max_loss sample_iron_condor
   \<and> estimate_position_value 15 sample_iron_condor 545 37 = Inr 0
   \<and> estimate_position_value 15 sample_iron_condor 575 37 = Inr 0"
  using boundary_value_intrinsic_branch[OF sample_iron_condor_valid, of 545 15 37]
        boundary_value_intrinsic_branch[OF sample_iron_condor_valid, of 575 15 37]
  by (simp add: sample_values sample_iron_condor_valid)

section \<open>The performance metrics never raise\<close>

lemma py_len_pos: "xs \<noteq> [] \<Longrightarrow> py_len xs \<noteq> 0"
  by (simp add: py_len_def)

lemma py_max_nonempty: "xs \<noteq> [] \<Longrightarrow> \<exists>v. py_max xs = Inr v"
  by (cases xs) simp_all

lemma py_min_nonempty: "xs \<noteq> [] \<Longrightarrow> \<exists>v. py_min xs = Inr v"
  by (cases xs) simp_all

lemma sum_list_squares_nonneg: "0 \<le> sum_list (map (\<lambda>x. (x - m)\<^sup>2) (xs :: real list))"
  by (rule sum_list_nonneg) auto

lemma py_sqrt_nonneg: "0 \<le> x \<Longrightarrow> py_sqrt x = Inr (sqrt x)"
  by (simp add: py_sqrt_def)

lemma drawdown_loop_total: "\<exists>st'. drawdown_loop results st = Inr st'"
proof (induction results arbitrary: st)
  case Nil
  then show ?case by (cases st) simp
next
  case (Cons r results)
  obtain c p m where st: "st = (c, p, m)" by (cases st)
  show ?case using Cons.IH
    by (simp add: st Let_def py_div_nonzero)
qed

lemma calculate_max_drawdown_total: "\<exists>v. calculate_max_drawdown results = Inr v"
proof (cases "results = []")
  case True
  then show ?thesis by (simp add: calculate_max_drawdown_def)
next
  case False
  obtain c p m where "drawdown_loop (sort_key exit_date results) (0, 0, 0) = Inr (c, p, m)"
    using drawdown_loop_total by (metis prod_cases3)
  with False show ?thesis by (simp add: calculate_max_drawdown_def)
qed

lemma calculate_sharpe_ratio_total: "\<exists>v. calculate_sharpe_ratio returns rf = Inr v"
proof (cases "returns = [] \<or> length returns < 2")
  case True
  then show ?thesis by (auto simp: calculate_sharpe_ratio_def)
next
  case False
  then have n: "py_len returns \<noteq> 0" "py_len returns - 1 \<noteq> 0" "0 < py_len returns - 1"
    by (simp_all add: py_len_def)
  let ?avg = "sum_list returns / py_len returns"
  let ?var = "sum_list (map (\<lambda>r. (r - ?avg)\<^sup>2) returns) / (py_len returns - 1)"
  have "0 \<le> ?var" using n(3) sum_list_squares_nonneg[of ?avg returns] by simp
  then have "py_sqrt ?var = Inr (sqrt ?var)" by (rule py_sqrt_nonneg)
  with False n show ?thesis
    by (simp add: calculate_sharpe_ratio_def py_div_nonzero py_sqrt_nonneg)
qed

lemma calculate_sortino_ratio_total: "\<exists>v. calculate_sortino_ratio returns rf = Inr v"
proof (cases "returns = [] \<or> length returns < 2")
  case True
  then show ?thesis by (auto simp: calculate_sortino_ratio_def)
next
  case False
  then have n: "py_len returns \<noteq> 0" by (simp add: py_len_def)
  let ?down = "filter (\<lambda>r. r < 0) returns"
  let ?var = "sum_list (map (\<lambda>r. (r - 0)\<^sup>2) ?down) / py_len ?down"
  have "0 \<le> ?var" using sum_list_squares_nonneg[of 0 ?down] by (simp add: py_len_def)
  then have "py_sqrt ?var = Inr (sqrt ?var)" by (rule py_sqrt_nonneg)
  with False n show ?thesis
    by (simp add: calculate_sortino_ratio_def Let_def py_div_nonzero py_sqrt_nonneg py_len_pos)
qed

lemma calculate_sortino_ratio_no_downside:
  assumes "2 \<le> length returns" "list_all (\<lambda>r. \<not> r < 0) returns"
  shows "calculate_sortino_ratio returns rf = Inr 10"
proof -
  from assms(2) have "filter (\<lambda>r. r < 0) returns = []"
    by (simp add: list_all_iff filter_empty_conv)
  moreover from assms(1) have "returns \<noteq> []" "\<not> length returns < 2" "py_len returns \<noteq> 0"
    by (auto simp: py_len_def)
  ultimately show ?thesis
    by (simp add: calculate_sortino_ratio_def py_div_nonzero)
qed

lemma calculate_metrics_nonempty:
  assumes "results \<noteq> []"
  shows "\<exists>m. calculate_metrics results = Inr m
          \<and> total_trades m = int (length results)
          \<and> calculate_sharpe_ratio (map return_pct results) 0 = Inr (sharpe_ratio m)
          \<and> calculate_sortino_ratio (map return_pct results) 0 = Inr (sortino_ratio m)"
proof -
  obtain dd where dd: "calculate_max_drawdown results = Inr dd"
    using calculate_max_drawdown_total by blast
  obtain sh where sh: "calculate_sharpe_ratio (map return_pct results) 0 = Inr sh"
    using calculate_sharpe_ratio_total by blast
  obtain so where so: "calculate_sortino_ratio (map return_pct results) 0 = Inr so"
    using calculate_sortino_ratio_total by blast
  from assms obtain best where best: "py_max (map return_pct results) = Inr best"
    using py_max_nonempty[of "map return_pct results"] by auto
  from assms obtain worst where worst: "py_min (map return_pct results) = Inr worst"
    using py_min_nonempty[of "map return_pct results"] by auto
  have len: "py_len results \<noteq> 0" "py_len (map return_pct results) \<noteq> 0"
    using assms by (simp_all add: py_len_def)
  show ?thesis
    using assms
    by (simp add: calculate_metrics_def Let_def dd sh so best worst len py_div_nonzero py_len_pos)
qed

lemma calculate_metrics_total: "\<exists>m. calculate_metrics results = Inr m \<and> total_trades m = int (length results)"
proof (cases "results = []")
  case True
  then show ?thesis by (simp add: calculate_metrics_def empty_metrics_def)
next
  case False
  from calculate_metrics_nonempty[OF this] show ?thesis by blast
qed

section \<open>The Sortino ratio without losing trades\<close>

text \<open>
  C8 (as stated, refuted). For the collection that holds the single winning outcome of the
  tests (return 566.67 percent, no negative return) the Sortino ratio of the summary is 0,
  not 10.
\<close>

theorem sortino_single_trade_zero:
  "[winning_outcome] \<noteq> [] \<and> \<not> return_pct winning_outcome < 0
   \<and> map_sum id sortino_ratio (calculate_metrics [winning_outcome]) = Inr 0"
proof -
  have "calculate_sortino_ratio (map return_pct [winning_outcome]) 0 = Inr 0"
    by (simp add: calculate_sortino_ratio_def)
  with calculate_metrics_nonempty[of "[winning_outcome]"]
  show ?thesis by (auto simp: winning_outcome_def)
qed

text \<open>
  C8 (amended). For every collection of at least two outcomes none of which has a negative
  return, the aggregator returns a summary (no division error or other exception is raised)
  whose Sortino ratio is exactly 10.
\<close>

theorem sortino_capped_without_losers:
  assumes "2 \<le> length results" and "list_all (\<lambda>r. \<not> return_pct r < 0) results"
  shows "\<exists>m. calculate_metrics results = Inr m \<and> sortino_ratio m = 10"
proof -
  from assms(1) have ne: "results \<noteq> []" by auto
  from assms have "calculate_sortino_ratio (map return_pct results) 0 = Inr 10"
    by (intro calculate_sortino_ratio_no_downside) (simp_all add: list_all_iff)
  with calculate_metrics_nonempty[OF ne] show ?thesis by auto
qed

theorem sortino_capped_without_losers_witness:
  "2 \<le> length [winning_outcome, winning_outcome, winning_outcome, winning_outcome, winning_outcome]
   \<and> list_all (\<lambda>r. \<not> return_pct r < 0)
        [winning_outcome, winning_outcome, winning_outcome, winning_outcome, winning_outcome]
   \<and> (\<exists>m. calculate_metrics
          [winning_outcome, winning_outcome, winning_outcome, winning_outcome, winning_outcome] = Inr m
        \<and> sortino_ratio m = 10)"
proof -
  have a: "2 \<le> length [winning_outcome, winning_outcome, winning_outcome, winning_outcome, winning_outcome]"
    by simp
  have b: "list_all (\<lambda>r. \<not> return_pct r < 0)
        [winning_outcome, winning_outcome, winning_outcome, winning_outcome, winning_outcome]"
    by (simp add: winning_outcome_def)
  show ?thesis using sortino_capped_without_losers[OF a b] a b by blast
qed

section \<open>The earnings-edge analyzer\<close>

text \<open>The loop of \<^verbatim>\<open>_categorize_results\<close> computes three filters of the input.\<close>

lemma categorize_loop_filter:
  "categorize_loop today results (pre, post, no) =
     (pre @ filter had_earnings results,
      post @ filter (\<lambda>r. \<not> had_earnings r \<and> dte today (short_put (iron_condor r)) > 0) results,
      no @ filter (\<lambda>r. \<not> had_earnings r \<and> \<not> dte today (short_put (iron_condor r)) > 0) results)"
  by (induction results arbitrary: pre post no) simp_all

lemma categorize_results_filter:
  "categorize_results today results =
     (filter had_earnings results,
      filter (\<lambda>r. \<not> had_earnings r \<and> dte today (short_put (iron_condor r)) > 0) results,
      filter (\<lambda>r. \<not> had_earnings r \<and> \<not> dte today (short_put (iron_condor r)) > 0) results)"
  by (simp add: categorize_results_def categorize_loop_filter)

lemma bind_py_div: "b \<noteq> 0 \<Longrightarrow> bind_result (py_div a b) f = f (a / b)"
  by (simp add: py_div_def)

lemma bind_py_sqrt: "0 \<le> x \<Longrightarrow> bind_result (py_sqrt x) f = f (sqrt x)"
  by (simp add: py_sqrt_def)

text \<open>The value of the test on two samples of at least two elements each.\<close>

lemma t_test_value:
  fixes sample1 sample2 :: "real list"
  defines "n1 \<equiv> py_len sample1" and "n2 \<equiv> py_len sample2"
  defines "mean1 \<equiv> sum_list sample1 / n1" and "mean2 \<equiv> sum_list sample2 / n2"
  defines "var1 \<equiv> sum_list (map (\<lambda>x. (x - mean1)\<^sup>2) sample1) / (n1 - 1)"
    and "var2 \<equiv> sum_list (map (\<lambda>x. (x - mean2)\<^sup>2) sample2) / (n2 - 1)"
  defines "v1 \<equiv> var1 / n1" and "v2 \<equiv> var2 / n2"
  defines "p \<equiv> approximate_p_value \<bar>(mean1 - mean2) / sqrt (v1 + v2)\<bar>
                  ((v1 + v2)\<^sup>2 / (v1\<^sup>2 / (n1 - 1) + v2\<^sup>2 / (n2 - 1)))"
  assumes len: "2 \<le> length sample1" "2 \<le> length sample2"
  shows "t_test sample1 sample2 = (if sqrt (v1 + v2) = 0 then Inr (False, 1) else Inr (p < 0.05, p))"
proof -
  from len have e: "(sample1 = []) = False" "(sample2 = []) = False"
    "(py_len sample1 < 2) = False" "(py_len sample2 < 2) = False"
    by (auto simp: py_len_def)
  from len have n: "2 \<le> n1" "2 \<le> n2" by (simp_all add: n1_def n2_def py_len_def)
  then have nz: "n1 \<noteq> 0" "n2 \<noteq> 0" "n1 - 1 \<noteq> 0" "n2 - 1 \<noteq> 0" and pos: "0 < n1 - 1" "0 < n2 - 1"
    by simp_all
  have "0 \<le> var1" "0 \<le> var2"
    using pos sum_list_squares_nonneg[of mean1 sample1] sum_list_squares_nonneg[of mean2 sample2]
    by (simp_all add: var1_def var2_def)
  then have v: "0 \<le> v1" "0 \<le> v2" using n by (simp_all add: v1_def v2_def)
  then have s: "0 \<le> v1 + v2" by simp
  show ?thesis
  proof (cases "sqrt (v1 + v2) = 0")
    case True
    show ?thesis
      unfolding t_test_def Let_def e
      unfolding n1_def[symmetric] n2_def[symmetric]
      by (simp only: bind_py_div[OF nz(1)] bind_py_div[OF nz(2)] bind_py_div[OF nz(3)]
          bind_py_div[OF nz(4)] mean1_def[symmetric] mean2_def[symmetric]
          var1_def[symmetric] var2_def[symmetric] v1_def[symmetric] v2_def[symmetric]
          bind_py_sqrt[OF s] True simp_thms if_True if_False)
  next
    case False
    from False v have "0 < v1 \<or> 0 < v2" by auto
    then have "0 < v1\<^sup>2 / (n1 - 1) \<or> 0 < v2\<^sup>2 / (n2 - 1)" using pos by auto
    moreover have "0 \<le> v1\<^sup>2 / (n1 - 1)" "0 \<le> v2\<^sup>2 / (n2 - 1)" using pos by simp_all
    ultimately have d: "v1\<^sup>2 / (n1 - 1) + v2\<^sup>2 / (n2 - 1) \<noteq> 0" by linarith
    show ?thesis
      unfolding t_test_def Let_def e
      unfolding n1_def[symmetric] n2_def[symmetric]
      by (simp only: bind_py_div[OF nz(1)] bind_py_div[OF nz(2)] bind_py_div[OF nz(3)]
          bind_py_div[OF nz(4)] mean1_def[symmetric] mean2_def[symmetric]
          var1_def[symmetric] var2_def[symmetric] v1_def[symmetric] v2_def[symmetric]
          bind_py_sqrt[OF s] bind_py_div[OF False] bind_py_div[OF d] False p_def[symmetric]
          simp_thms if_True if_False)
  qed
qed

lemma t_test_total: "\<exists>res. t_test sample1 sample2 = Inr res"
proof (cases "2 \<le> length sample1 \<and> 2 \<le> length sample2")
  case True
  with t_test_value[of sample1 sample2] obtain c a b
    where "t_test sample1 sample2 = (if c then Inr a else Inr b)" by blast
  then show ?thesis by (cases c) simp_all
next
  case False
  then have "sample1 = [] \<or> sample2 = [] \<or> py_len sample1 < 2 \<or> py_len sample2 < 2"
    by (auto simp: py_len_def)
  then show ?thesis by (auto simp: t_test_def Let_def)
qed


text \<open>\<^verbatim>\<open>analyze\<close> never raises, and its fields are the summaries of the three groups, the
  result of the test on the returns of the second and the first group, and the recommendation
  chosen from them.\<close>

lemma analyze_returns:
  fixes today :: int and results :: "BacktestResult list"
  defines "pre \<equiv> filter had_earnings results"
    and "post \<equiv> filter (\<lambda>r. \<not> had_earnings r \<and> dte today (short_put (iron_condor r)) > 0) results"
    and "no \<equiv> filter (\<lambda>r. \<not> had_earnings r \<and> \<not> dte today (short_put (iron_condor r)) > 0) results"
  shows "\<exists>cmp. analyze today results = Inr cmp
          \<and> calculate_metrics pre = Inr (pre_earnings cmp)
          \<and> calculate_metrics post = Inr (post_earnings cmp)
          \<and> calculate_metrics no = Inr (no_earnings cmp)
          \<and> t_test (map return_pct post) (map return_pct pre) = Inr (is_significant cmp, p_value cmp)
          \<and> recommendation cmp
              = generate_recommendation (pre_earnings cmp) (post_earnings cmp)
                  (is_significant cmp) (p_value cmp)"
proof -
  obtain m1 where m1: "calculate_metrics pre = Inr m1" using calculate_metrics_total by blast
  obtain m2 where m2: "calculate_metrics post = Inr m2" using calculate_metrics_total by blast
  obtain m3 where m3: "calculate_metrics no = Inr m3" using calculate_metrics_total by blast
  obtain sig pv where t: "t_test (map return_pct post) (map return_pct pre) = Inr (sig, pv)"
    using t_test_total by (metis surj_pair)
  have c: "categorize_results today results = (pre, post, no)"
    by (simp add: categorize_results_filter pre_def post_def no_def)
  show ?thesis
    by (simp add: analyze_def c m1 m2 m3 t Let_def)
qed

lemma sqrt_25: "sqrt 25 = 5"
  by (rule real_sqrt_unique) simp_all

lemma small_sample_groups:
  "filter had_earnings small_sample = [outcome_with (- 4) True, outcome_with 4 True]"
  "filter (\<lambda>r. \<not> had_earnings r \<and> dte 15 (short_put (iron_condor r)) > 0) small_sample
     = [outcome_with 97 False, outcome_with 103 False]"
  by (simp_all add: small_sample_def outcome_with_def winning_outcome_def dte_def sample_defs)

lemma small_sample_t_test: "t_test [97, 103] [- 4, 4] = Inr (True, 0.02)"
proof -
  have "t_test [97, 103] [- 4, 4] = (if sqrt 25 = 0 then Inr (False, 1)
     else Inr (approximate_p_value \<bar>100 / sqrt 25\<bar> (625 / 337) < 0.05,
               approximate_p_value \<bar>100 / sqrt 25\<bar> (625 / 337)))"
    by (subst t_test_value) (simp_all add: py_len_def power2_eq_square)
  then show ?thesis by (simp add: sqrt_25 approximate_p_value_def)
qed

text \<open>
  C7 (as stated, refuted). Both groups of \<open>small_sample\<close> hold two trades, fewer than 10.
  The recommendation is the insufficient-data message, but the significance test has been run:
  the comparison reports a significant difference with the p-value 0.02 of the small-sample
  table, whereas every return of \<^verbatim>\<open>_t_test\<close> that precedes the test statistic is
  \<^verbatim>\<open>(False, 1.0)\<close>.
\<close>

theorem insufficient_data_test_still_run:
  "length (filter had_earnings small_sample) < 10
   \<and> map_sum id recommendation (analyze 15 small_sample) = Inr InsufficientTenEach
   \<and> map_sum id is_significant (analyze 15 small_sample) = Inr True
   \<and> map_sum id p_value (analyze 15 small_sample) = Inr 0.02"
proof -
  from analyze_returns[of 15 small_sample] obtain cmp where
    c: "analyze 15 small_sample = Inr cmp"
    and m: "calculate_metrics [outcome_with (- 4) True, outcome_with 4 True] = Inr (pre_earnings cmp)"
       "calculate_metrics [outcome_with 97 False, outcome_with 103 False] = Inr (post_earnings cmp)"
    and t: "t_test (map return_pct [outcome_with 97 False, outcome_with 103 False])
              (map return_pct [outcome_with (- 4) True, outcome_with 4 True])
            = Inr (is_significant cmp, p_value cmp)"
    and r: "recommendation cmp = generate_recommendation (pre_earnings cmp) (post_earnings cmp)
                  (is_significant cmp) (p_value cmp)"
    unfolding small_sample_groups by blast
  from t have sig: "is_significant cmp = True" "p_value cmp = 0.02"
    by (simp_all add: outcome_with_def small_sample_t_test)
  from calculate_metrics_total[of "[outcome_with (- 4) True, outcome_with 4 True]"] m(1)
  have n1: "total_trades (pre_earnings cmp) = 2" by auto
  from calculate_metrics_total[of "[outcome_with 97 False, outcome_with 103 False]"] m(2)
  have n2: "total_trades (post_earnings cmp) = 2" by auto
  from r n1 n2 have "recommendation cmp = InsufficientTenEach"
    by (simp add: generate_recommendation_def)
  with c sig show ?thesis by (simp add: small_sample_groups)
qed

text \<open>
  C7 (amended). For every collection of outcomes in which the outcomes with the
  earnings-in-window flag or the remaining outcomes number fewer than 10, the analyzer returns
  one of the two insufficient-data recommendations; the significance test is run all the same,
  on the returns of the analyzer's second and first group, and its result is reported in the
  significance flag and the p-value.
\<close>

theorem insufficient_data_recommendation:
  assumes "length (filter had_earnings results) < 10
         \<or> length (filter (\<lambda>r. \<not> had_earnings r) results) < 10"
  shows "\<exists>cmp. analyze today results = Inr cmp
          \<and> (recommendation cmp = InsufficientNoTrades \<or> recommendation cmp = InsufficientTenEach)
          \<and> t_test
               (map return_pct
                  (filter (\<lambda>r. \<not> had_earnings r \<and> dte today (short_put (iron_condor r)) > 0) results))
               (map return_pct (filter had_earnings results))
             = Inr (is_significant cmp, p_value cmp)"
proof -
  let ?pre = "filter had_earnings results"
  let ?post = "filter (\<lambda>r. \<not> had_earnings r \<and> dte today (short_put (iron_condor r)) > 0) results"
  from analyze_returns[of today results] obtain cmp where
    c: "analyze today results = Inr cmp"
    and m: "calculate_metrics ?pre = Inr (pre_earnings cmp)"
       "calculate_metrics ?post = Inr (post_earnings cmp)"
    and t: "t_test (map return_pct ?post) (map return_pct ?pre) = Inr (is_significant cmp, p_value cmp)"
    and r: "recommendation cmp = generate_recommendation (pre_earnings cmp) (post_earnings cmp)
                  (is_significant cmp) (p_value cmp)"
    by blast
  from calculate_metrics_total[of ?pre] m(1)
  have n1: "total_trades (pre_earnings cmp) = int (length ?pre)" by auto
  from calculate_metrics_total[of ?post] m(2)
  have n2: "total_trades (post_earnings cmp) = int (length ?post)" by auto
  have "length ?post \<le> length (filter (\<lambda>r. \<not> had_earnings r) results)"
    by (induction results) auto
  with assms have "length ?pre < 10 \<or> length ?post < 10" by linarith
  with r n1 n2
  have "recommendation cmp = InsufficientNoTrades \<or> recommendation cmp = InsufficientTenEach"
    by (auto simp: generate_recommendation_def)
  with c t show ?thesis by blast
qed

theorem insufficient_data_recommendation_witness:
  "(length (filter had_earnings small_sample) < 10
      \<or> length (filter (\<lambda>r. \<not> had_earnings r) small_sample) < 10)
   \<and> (\<exists>cmp. analyze 15 small_sample = Inr cmp
          \<and> (recommendation cmp = InsufficientNoTrades \<or> recommendation cmp = InsufficientTenEach)
          \<and> (is_significant cmp, p_value cmp) = (True, 0.02))"
proof -
  have a: "length (filter had_earnings small_sample) < 10
      \<or> length (filter (\<lambda>r. \<not> had_earnings r) small_sample) < 10"
    by (simp add: small_sample_groups)
  have t: "t_test (map return_pct [outcome_with 97 False, outcome_with 103 False])
              (map return_pct [outcome_with (- 4) True, outcome_with 4 True]) = Inr (True, 0.02)"
    by (simp add: outcome_with_def small_sample_t_test)
  show ?thesis
    using insufficient_data_recommendation[OF a, of 15] a t
    unfolding small_sample_groups
    by auto
qed

section \<open>The strike lookup\<close>

text \<open>What the lookup does guarantee: an exact match is returned, a result of the loop lies
  within the tolerance, and the lookup fails exactly when no strike lies within the
  tolerance.\<close>

lemma find_strike_loop_within:
  "find_strike_loop d target tol = Some opt \<Longrightarrow> \<exists>k. (k, opt) \<in> set d \<and> \<bar>k - target\<bar> \<le> tol"
  by (induction d target tol rule: find_strike_loop.induct) (auto split: if_splits)

lemma find_strike_loop_none:
  "find_strike_loop d target tol = None \<longleftrightarrow> (\<forall>(k, opt) \<in> set d. \<not> \<bar>k - target\<bar> \<le> tol)"
  by (induction d target tol rule: find_strike_loop.induct) auto

lemma find_strike_exact:
  "map_of d target = Some opt \<Longrightarrow> find_strike d target tol = Some opt"
  by (simp add: find_strike_def)

lemma find_strike_skip:
  "0 \<le> tol \<Longrightarrow> find_strike d target tol = None \<longleftrightarrow> (\<forall>(k, opt) \<in> set d. \<not> \<bar>k - target\<bar> \<le> tol)"
proof -
  assume t: "0 \<le> tol"
  show ?thesis
  proof (cases "map_of d target")
    case None
    then show ?thesis by (simp add: find_strike_def find_strike_loop_none)
  next
    case (Some opt)
    then have "(target, opt) \<in> set d" by (rule map_of_SomeD)
    with t Some show ?thesis
      by (auto simp: find_strike_def intro!: bexI[of _ "(target, opt)"])
  qed
qed

text \<open>
  C5 (the code departs from the claim). With puts at the strikes 95.0, 95.5 and 100, the
  short put 100 and the wing width 4.7, the target strike 95.3 has no exact match; the strikes
  95.0 and 95.5 both lie within the tolerance 0.5, at the distances 0.3 and 0.2. The lookup
  returns the put at 95.0, the first within the tolerance in the order of the dictionary, and
  not the nearest one at 95.5.
\<close>

theorem find_strike_first_not_nearest:
  "map_of (by_strike [put_95, put_95_5, put_100]) (strike put_100 - 4.7) = None
   \<and> \<bar>strike put_95 - (strike put_100 - 4.7)\<bar> = 0.3
   \<and> \<bar>strike put_95_5 - (strike put_100 - 4.7)\<bar> = 0.2
   \<and> find_strike (by_strike [put_95, put_95_5, put_100]) (strike put_100 - 4.7) 0.5 = Some put_95"
proof -
  have b: "by_strike [put_95, put_95_5, put_100] = [(95, put_95), (95.5, put_95_5), (100, put_100)]"
    by (simp add: by_strike_def put_95_def put_95_5_def put_100_def)
  have k: "strike put_100 = 100" "strike put_95 = 95" "strike put_95_5 = 95.5"
    by (simp_all add: put_95_def put_95_5_def put_100_def)
  show ?thesis by (simp add: b k find_strike_def)
qed

section \<open>The grouping of the earnings-edge analyzer\<close>

text \<open>
  C3 (the code departs from the claim). An outcome without earnings in the holding period is
  in the tested remainder group only while its short put has a positive DTE on the day of the
  analysis. The outcome of the tests, analyzed on day 15, is in the second group; analyzed on
  day 100, after the expiration on day 52, it is put in neither of the two tested groups: it
  goes to a third group, and the summaries of the two tested groups count no trade.
\<close>

theorem expired_outcome_in_third_group:
  "\<not> had_earnings winning_outcome
   \<and> categorize_results 15 [winning_outcome] = ([], [winning_outcome], [])
   \<and> categorize_results 100 [winning_outcome] = ([], [], [winning_outcome])
   \<and> map_sum id (total_trades \<circ> pre_earnings) (analyze 100 [winning_outcome]) = Inr 0
   \<and> map_sum id (total_trades \<circ> post_earnings) (analyze 100 [winning_outcome]) = Inr 0
   \<and> map_sum id (total_trades \<circ> no_earnings) (analyze 100 [winning_outcome]) = Inr 1"
proof -
  have g: "filter had_earnings [winning_outcome] = []"
    "filter (\<lambda>r. \<not> had_earnings r \<and> dte 100 (short_put (iron_condor r)) > 0) [winning_outcome] = []"
    "filter (\<lambda>r. \<not> had_earnings r \<and> \<not> dte 100 (short_put (iron_condor r)) > 0) [winning_outcome]
       = [winning_outcome]"
    by (simp_all add: winning_outcome_def dte_def sample_defs)
  have g15:
    "filter (\<lambda>r. \<not> had_earnings r \<and> dte 15 (short_put (iron_condor r)) > 0) [winning_outcome]
       = [winning_outcome]"
    "filter (\<lambda>r. \<not> had_earnings r \<and> \<not> dte 15 (short_put (iron_condor r)) > 0) [winning_outcome] = []"
    by (simp_all add: winning_outcome_def dte_def sample_defs)
  from analyze_returns[of 100 "[winning_outcome]"] obtain cmp where
    c: "analyze 100 [winning_outcome] = Inr cmp"
    and m: "calculate_metrics [] = Inr (pre_earnings cmp)"
       "calculate_metrics [] = Inr (post_earnings cmp)"
       "calculate_metrics [winning_outcome] = Inr (no_earnings cmp)"
    unfolding g by blast
  from calculate_metrics_total[of "[]"] m(1,2)
  have n: "total_trades (pre_earnings cmp) = 0" "total_trades (post_earnings cmp) = 0" by auto
  from calculate_metrics_total[of "[winning_outcome]"] m(3)
  have n3: "total_trades (no_earnings cmp) = 1" by auto
  have h: "\<not> had_earnings winning_outcome" by (simp add: winning_outcome_def)
  have cat: "categorize_results 100 [winning_outcome] = ([], [], [winning_outcome])"
    unfolding categorize_results_filter g by (rule refl)
  have cat15: "categorize_results 15 [winning_outcome] = ([], [winning_outcome], [])"
    unfolding categorize_results_filter g(1) g15 by (rule refl)
  show ?thesis using c n n3 h cat cat15 by simp
qed

section \<open>The candidate generator\<close>

lemma float_max_Fin: "float_max (Fin a) (Fin b) = Fin (max a b)"
  by (simp add: float_max_def float_gt_def max_def)

lemmas float_condor_defs = net_credit_float_def max_profit_float_def max_loss_put_side_float_def
  max_loss_call_side_float_def max_loss_float_def mid_float_def

text \<open>On a spread with finite quotes the float properties are the real ones.\<close>

lemma quoted_condor_values:
  "net_credit_float (quoted_condor ic) = Fin (net_credit ic)"
  "max_profit_float (quoted_condor ic) = Fin (max_profit ic)"
  "max_loss_float (quoted_condor ic) = Fin (max_loss ic)"
  "put_side_width (quoted_condor ic) = put_side_width ic"
  "call_side_width (quoted_condor ic) = call_side_width ic"
  by (simp_all add: float_condor_defs condor_defs quoted_condor_def quoted_def float_max_Fin)

text \<open>What the three guards of \<^verbatim>\<open>_is_valid_condor\<close> establish: the four inequalities when the
  net credit is a number, and nothing when it is NaN.\<close>

lemma is_valid_condor_finite:
  assumes "net_credit_float ic = Fin c"
  shows "is_valid_condor ic \<longleftrightarrow>
     float_gt (net_credit_float ic) (Fin 0) \<and> float_gt (max_loss_float ic) (Fin 0)
     \<and> float_lt (max_profit_float ic) (Fin (put_side_width ic))
     \<and> float_lt (max_profit_float ic) (Fin (call_side_width ic))"
  using assms
  by (auto simp: is_valid_condor_def max_profit_float_def max_loss_float_def
      max_loss_put_side_float_def max_loss_call_side_float_def float_max_Fin float_gt_def
      float_ge_def)

lemma is_valid_condor_nan:
  assumes "net_credit_float ic = NaN"
  shows "is_valid_condor ic"
  using assms
  by (simp add: is_valid_condor_def max_profit_float_def max_loss_float_def
      max_loss_put_side_float_def max_loss_call_side_float_def float_max_def float_gt_def
      float_ge_def)

lemma short_call_loop_valid:
  "ic \<in> set (short_call_loop config e calls_by_strike sp lp short_calls) \<Longrightarrow> is_valid_condor ic"
  by (induction short_calls) (auto simp: Let_def split: option.splits sum.splits if_splits)

lemma short_put_loop_valid:
  "ic \<in> set (short_put_loop config e puts_by_strike calls_by_strike short_calls short_puts)
   \<Longrightarrow> is_valid_condor ic"
  by (induction short_puts) (auto simp: Let_def split: option.splits dest: short_call_loop_valid)

lemma generate_condors_for_expiration_valid:
  "ic \<in> set (generate_condors_for_expiration options e config) \<Longrightarrow> is_valid_condor ic"
  by (auto simp: generate_condors_for_expiration_def Let_def split: if_splits
      dest: short_put_loop_valid)

lemma generate_iron_condors_valid:
  "ic \<in> set (generate_iron_condors today options config) \<Longrightarrow> is_valid_condor ic"
  by (auto simp: generate_iron_condors_def Let_def split: if_splits
      dest: generate_condors_for_expiration_valid)

text \<open>Every emitted spread whose net credit is a number satisfies the four inequalities.\<close>

lemma generated_condors_valid_finite_credit:
  assumes "ic \<in> set (generate_iron_condors today options config)"
    and "net_credit_float ic \<noteq> NaN"
  shows "float_gt (net_credit_float ic) (Fin 0) \<and> float_gt (max_loss_float ic) (Fin 0)
     \<and> float_lt (max_profit_float ic) (Fin (put_side_width ic))
     \<and> float_lt (max_profit_float ic) (Fin (call_side_width ic))"
proof -
  from assms(2) obtain c where c: "net_credit_float ic = Fin c"
    by (cases "net_credit_float ic") auto
  from generate_iron_condors_valid[OF assms(1)] show ?thesis
    by (simp add: is_valid_condor_finite[OF c])
qed

text \<open>The generator on a chain of the four fixture legs, screened on day 15 (37 days to
  expiration) with the default configuration: the spread of the legs is emitted if it passes
  \<^verbatim>\<open>_is_valid_condor\<close>.\<close>

lemma four_leg_chain_generated:
  fixes sp lp sc lc :: "pyfloat Option_contract"
  assumes sp: "sp = quoted sample_short_put \<or> sp = nan_short_put"
  defines "ic \<equiv> \<lparr>ic_ticker = ''SPY'', ic_expiration = 52, short_put = sp,
      long_put = quoted sample_long_put, short_call = quoted sample_short_call,
      long_call = quoted sample_long_call\<rparr>"
  assumes v: "is_valid_condor ic"
  shows "generate_iron_condors 15
           [quoted sample_long_put, sp, quoted sample_short_call, quoted sample_long_call]
           default_StrategyConfig = [ic]"
proof -
  let ?lp = "quoted sample_long_put" and ?sc = "quoted sample_short_call"
    and ?lc = "quoted sample_long_call"
  let ?chain = "[?lp, sp, ?sc, ?lc]"
  have spf: "ticker sp = ''SPY''" "strike sp = 545" "expiration sp = 52" "option_type sp = ''put''"
    "delta sp = - 0.15"
    using sp by (auto simp: nan_short_put_def quoted_def sample_defs)
  have lpf: "ticker ?lp = ''SPY''" "strike ?lp = 540" "expiration ?lp = 52" "option_type ?lp = ''put''"
    "delta ?lp = - 0.05"
    by (simp_all add: quoted_def sample_defs)
  have scf: "ticker ?sc = ''SPY''" "strike ?sc = 575" "expiration ?sc = 52" "option_type ?sc = ''call''"
    "delta ?sc = 0.15"
    by (simp_all add: quoted_def sample_defs)
  have lcf: "ticker ?lc = ''SPY''" "strike ?lc = 580" "expiration ?lc = 52" "option_type ?lc = ''call''"
    "delta ?lc = 0.05"
    by (simp_all add: quoted_def sample_defs)
  have n: "new_IronCondor ''SPY'' 52 sp ?lp ?sc ?lc = Inr ic"
    by (simp add: new_IronCondor_def post_init_def ic_def spf lpf scf lcf)
  have f: "filter (\<lambda>opt. min_dte default_StrategyConfig \<le> dte 15 opt
                        \<and> dte 15 opt \<le> max_dte default_StrategyConfig) ?chain = ?chain"
    by (simp add: default_StrategyConfig_def dte_def spf lpf scf lcf)
  have g: "group_by_expiration ?chain = [(52, ?chain)]"
    by (simp add: group_by_expiration_def spf lpf scf lcf)
  have puts: "filter (\<lambda>opt. option_type opt = ''put'') ?chain = [?lp, sp]"
    and calls: "filter (\<lambda>opt. option_type opt = ''call'') ?chain = [?sc, ?lc]"
    by (simp_all add: spf lpf scf lcf)
  have bp: "by_strike [?lp, sp] = [(540, ?lp), (545, sp)]"
    and bc: "by_strike [?sc, ?lc] = [(575, ?sc), (580, ?lc)]"
    by (simp_all add: by_strike_def spf lpf scf lcf)
  have fsp: "filter (\<lambda>p. - max_delta default_StrategyConfig \<le> delta p
                      \<and> delta p \<le> - min_delta default_StrategyConfig) [?lp, sp] = [sp]"
    and fsc: "filter (\<lambda>c. min_delta default_StrategyConfig \<le> delta c
                      \<and> delta c \<le> max_delta default_StrategyConfig) [?sc, ?lc] = [?sc]"
    by (simp_all add: default_StrategyConfig_def spf lpf scf lcf)
  have k: "wing_width_put default_StrategyConfig = 5" "wing_width_call default_StrategyConfig = 5"
    by (simp_all add: default_StrategyConfig_def)
  have e: "generate_condors_for_expiration ?chain 52 default_StrategyConfig = [ic]"
    unfolding generate_condors_for_expiration_def Let_def puts calls bp bc fsp fsc
    by (simp add: k find_strike_def n v spf scf)
  show ?thesis
    unfolding generate_iron_condors_def Let_def f g by (simp add: e)
qed

lemma sample_chain_generated:
  "generate_iron_condors 15 sample_chain default_StrategyConfig = [quoted_condor sample_iron_condor]"
proof -
  have q: "quoted_condor sample_iron_condor =
      \<lparr>ic_ticker = ''SPY'', ic_expiration = 52, short_put = quoted sample_short_put,
      long_put = quoted sample_long_put, short_call = quoted sample_short_call,
      long_call = quoted sample_long_call\<rparr>"
    by (simp add: quoted_condor_def sample_iron_condor_def)
  have "is_valid_condor (quoted_condor sample_iron_condor)"
    by (simp add: is_valid_condor_finite[OF quoted_condor_values(1)] quoted_condor_values
        sample_values float_gt_def)
       (simp add: put_side_width_def call_side_width_def sample_values)
  then show ?thesis
    unfolding sample_chain_def q by (intro four_leg_chain_generated) simp_all
qed

text \<open>
  C4 (the code departs from the claim). A row whose bid is \<^verbatim>\<open>nan\<close> makes the net credit of
  every spread built on it NaN; the three guards of \<^verbatim>\<open>_is_valid_condor\<close> are comparisons and
  all fail on NaN, so the spread is accepted. For the chain of the four fixture legs with the
  bid of the short put read as NaN, the generator emits the spread, whose net credit, maximum
  profit and maximum loss are NaN: none of the four inequalities of the claim holds for it.
\<close>

theorem generator_emits_nan_credit:
  "generate_iron_condors 15 nan_chain default_StrategyConfig = [nan_condor]
   \<and> net_credit_float nan_condor = NaN
   \<and> max_profit_float nan_condor = NaN
   \<and> max_loss_float nan_condor = NaN
   \<and> \<not> float_gt (net_credit_float nan_condor) (Fin 0)
   \<and> \<not> float_gt (max_loss_float nan_condor) (Fin 0)
   \<and> \<not> float_lt (max_profit_float nan_condor) (Fin (put_side_width nan_condor))
   \<and> \<not> float_lt (max_profit_float nan_condor) (Fin (call_side_width nan_condor))"
proof -
  have m: "mid_float nan_short_put = NaN"
    by (simp add: mid_float_def nan_short_put_def)
  have c: "net_credit_float nan_condor = NaN"
    by (simp add: net_credit_float_def nan_condor_def m)
  then have l: "max_profit_float nan_condor = NaN" "max_loss_float nan_condor = NaN"
    by (simp_all add: max_profit_float_def max_loss_float_def max_loss_put_side_float_def
        max_loss_call_side_float_def float_max_def float_gt_def)
  have "generate_iron_condors 15 nan_chain default_StrategyConfig = [nan_condor]"
    unfolding nan_chain_def nan_condor_def
    by (intro four_leg_chain_generated)
       (simp_all add: is_valid_condor_nan[OF c[unfolded nan_condor_def]])
  with c l show ?thesis by (simp add: float_gt_def)
qed

end
